theory Spec2Isabelle
  imports Complex_Main
begin

section \<open>Tensors and errors\<close>

text \<open>
  The training script works on JAX arrays. An array is modelled by the list of its
  elements (its shape is the length of the list) and a float by a real number: the
  arithmetic is the exact one the float operations round. A Python exception is a value
  of type \<open>error\<close>. An elementwise operation on two arrays of different shapes is
  outside what the model describes (JAX would broadcast or raise); it is reported as
  \<open>ShapeMismatch\<close> and never truncated silently. A float operation that has no real
  result (the square root of a negative number is a NaN, the reciprocal of zero an
  infinity) does not raise in the source, which computes on with that value; the model
  stops at the operation and reports \<open>NonFinite\<close>, so that it never gives a real number
  where the source has none. A call that raises is described by its exception alone, not
  by the state the object is left in. The methods are modelled as Python executes them,
  one call after the other.
\<close>

type_synonym tensor = "real list"

datatype error =
    AssertionError string
  | ValueError string
  | ZeroDivisionError
  | ShapeMismatch
  | NonFinite

definition zeros_like :: "tensor \<Rightarrow> tensor" where
  "zeros_like x = replicate (length x) 0"

definition elementwise :: "(real \<Rightarrow> real \<Rightarrow> real) \<Rightarrow> tensor \<Rightarrow> tensor \<Rightarrow> error + tensor" where
  "elementwise f a b = (if length a = length b then Inr (map2 f a b) else Inl ShapeMismatch)"

text \<open>\<open>g * c\<close> and \<open>c * g\<close> for an array \<open>g\<close> and a scalar \<open>c\<close>.\<close>

definition times_scalar :: "tensor \<Rightarrow> real \<Rightarrow> tensor" where
  "times_scalar g c = map (\<lambda>x. x * c) g"

definition scalar_times :: "real \<Rightarrow> tensor \<Rightarrow> tensor" where
  "scalar_times c g = map (\<lambda>x. c * x) g"

text \<open>
  \<open>jn.sqrt\<close> of a scalar and of an array, and \<open>jn.reciprocal\<close> of an array, with the
  arguments that have no real result set apart.
\<close>

definition jn_sqrt_scalar :: "real \<Rightarrow> error + real" where
  "jn_sqrt_scalar x = (if x < 0 then Inl NonFinite else Inr (sqrt x))"

definition jn_sqrt :: "tensor \<Rightarrow> error + tensor" where
  "jn_sqrt t = (if \<exists>x\<in>set t. x < 0 then Inl NonFinite else Inr (map sqrt t))"

definition jn_reciprocal :: "tensor \<Rightarrow> error + tensor" where
  "jn_reciprocal t = (if 0 \<in> set t then Inl NonFinite else Inr (map (\<lambda>x. 1 / x) t))"

section \<open>GradientAccumulationOptimizerWrapper\<close>

text \<open>
  The wrapper holds a scaler, the wrapped optimizer and one buffer per trainable variable.
  The wrapped optimizer is any object with a \<open>train_vars\<close> list and a call
  \<open>optimizer(lr, grads)\<close> that mutates it: here a state of type \<open>'s\<close>, the function
  \<open>tv\<close> reading the values of its trainable variables, and the function \<open>opt\<close>
  returning the state after the call or the exception it raised.
\<close>

record 's wrapper =
  scaler :: real
  optimizer :: 's
  accum :: "tensor list"

definition GradientAccumulationOptimizerWrapper_init ::
  "('s \<Rightarrow> tensor list) \<Rightarrow> 's \<Rightarrow> real \<Rightarrow> 's wrapper" where
  "GradientAccumulationOptimizerWrapper_init tv optimizer0 scaler0 =
     \<lparr>scaler = scaler0, optimizer = optimizer0, accum = map zeros_like (tv optimizer0)\<rparr>"

text \<open>
  The loop \<open>for g, a in zip(grads, self.accum): a.value += g * self.scaler\<close>. \<open>zip\<close>
  stops at the shorter list; buffers beyond it keep their value.
\<close>

fun accumulate :: "real \<Rightarrow> tensor list \<Rightarrow> tensor list \<Rightarrow> error + tensor list" where
  "accumulate sc [] as = Inr as"
| "accumulate sc (g # gs) [] = Inr []"
| "accumulate sc (g # gs) (a # as) =
     (case elementwise (+) a (times_scalar g sc) of
        Inl e \<Rightarrow> Inl e
      | Inr a' \<Rightarrow>
         (case accumulate sc gs as of
            Inl e \<Rightarrow> Inl e
          | Inr as' \<Rightarrow> Inr (a' # as')))"

definition GradientAccumulationOptimizerWrapper_call ::
  "('s \<Rightarrow> tensor list) \<Rightarrow> (real \<Rightarrow> tensor list \<Rightarrow> 's \<Rightarrow> error + 's) \<Rightarrow>
   real \<Rightarrow> tensor list \<Rightarrow> bool \<Rightarrow> 's wrapper \<Rightarrow> error + 's wrapper" where
  "GradientAccumulationOptimizerWrapper_call tv opt lr grads apply_updates w =
     (if length grads \<noteq> length (tv (optimizer w))
      then Inl (AssertionError ''Expecting as many gradients as trainable variables'')
      else
        (case accumulate (scaler w) grads (accum w) of
           Inl e \<Rightarrow> Inl e
         | Inr acc \<Rightarrow>
            if apply_updates then
              (case opt lr acc (optimizer w) of
                 Inl e \<Rightarrow> Inl e
               | Inr optimizer' \<Rightarrow> Inr (w\<lparr>optimizer := optimizer', accum := map zeros_like acc\<rparr>))
            else Inr (w\<lparr>accum := acc\<rparr>)))"

text \<open>A sequence of calls on the same wrapper, stopping at the first exception.\<close>

fun wrapper_calls ::
  "('s \<Rightarrow> tensor list) \<Rightarrow> (real \<Rightarrow> tensor list \<Rightarrow> 's \<Rightarrow> error + 's) \<Rightarrow>
   (real \<times> tensor list \<times> bool) list \<Rightarrow> 's wrapper \<Rightarrow> error + 's wrapper" where
  "wrapper_calls tv opt [] w = Inr w"
| "wrapper_calls tv opt ((lr, grads, apply_updates) # cs) w =
     (case GradientAccumulationOptimizerWrapper_call tv opt lr grads apply_updates w of
        Inl e \<Rightarrow> Inl e
      | Inr w' \<Rightarrow> wrapper_calls tv opt cs w')"

text \<open>Gradients are aligned with buffers when there is one per buffer, of the same shape.\<close>

definition aligned :: "tensor list \<Rightarrow> tensor list \<Rightarrow> bool" where
  "aligned gs as = (map length gs = map length as)"

text \<open>What the buffers hold after one accumulation of aligned gradients.\<close>

definition accumulated :: "real \<Rightarrow> tensor list \<Rightarrow> tensor list \<Rightarrow> tensor list" where
  "accumulated sc gs as = map2 (\<lambda>g a. map2 (\<lambda>x y. y + x * sc) g a) gs as"

text \<open>
  The mean of the gradient lists \<open>g_1..g_k\<close> in the words of the specification: element
  \<open>e\<close> of the tensor for variable \<open>i\<close> is the sum of that element over the \<open>k\<close> lists,
  divided by \<open>k\<close>.
\<close>

definition mean_of_gradients :: "tensor list list \<Rightarrow> tensor list" where
  "mean_of_gradients gss =
     map (\<lambda>i. map (\<lambda>e. (\<Sum>gs\<leftarrow>gss. gs ! i ! e) / real (length gss))
                 [0..<length (hd gss ! i)])
         [0..<length (hd gss)]"

section \<open>The random-number primitives and the library environment\<close>

text \<open>
  \<open>jax.random.key\<close>, \<open>jax.random.split\<close> and \<open>jax.random.normal\<close> belong to JAX, and
  the dataset table, the model variables and the default generator to objax and to a
  module outside this development. They are parameters of the model: keys have an
  arbitrary type \<open>'k\<close>, \<open>random_normal k n\<close> is the array drawn from key \<open>k\<close> for the
  shape \<open>n\<close>.
\<close>

datatype 'k variable =
    TrainVar tensor
  | TrainRef tensor
  | StateVar tensor
  | RandomState 'k

record split_info =
  num_classes :: nat
  num_examples :: nat

datatype model = ResNet200 nat nat | ResNet152 nat nat | ResNet101 nat nat
  | ResNet50 nat nat | ResNet18 nat nat

record 'k env =
  random_key :: "int \<Rightarrow> 'k"
  random_split :: "'k \<Rightarrow> 'k \<times> 'k"
  random_normal :: "'k \<Rightarrow> nat \<Rightarrow> tensor"
  device_count :: nat
  get_train_dataset_split :: "string \<Rightarrow> error + split_info"
  get_eval_dataset_split :: "string \<Rightarrow> error + split_info"
  module_vars :: "int \<Rightarrow> model \<Rightarrow> int \<Rightarrow> 'k variable list"
  generator_vars :: "int \<Rightarrow> 'k variable list"

text \<open>
  \<open>module_vars seed m n\<close> stands for \<open>m[n:].vars()\<close> of a model created while the default
  generator was seeded with \<open>seed\<close>, and \<open>generator_vars seed\<close> for the variables of
  that generator.
\<close>

definition and_then :: "error + 'a \<Rightarrow> ('a \<Rightarrow> error + 'b) \<Rightarrow> error + 'b" where
  "and_then r f = (case r of Inl e \<Rightarrow> Inl e | Inr v \<Rightarrow> f v)"

section \<open>CustomSGLD\<close>

record 'k CustomSGLD =
  train_vars :: "tensor list"
  rng :: 'k

definition train_var_values :: "'k variable list \<Rightarrow> tensor list" where
  "train_var_values vc = concat (map (\<lambda>v. case v of TrainVar x \<Rightarrow> [x] | _ \<Rightarrow> []) vc)"

definition CustomSGLD_init :: "('k, 'x) env_scheme \<Rightarrow> 'k variable list \<Rightarrow> 'k CustomSGLD" where
  "CustomSGLD_init J vc = \<lparr>train_vars = train_var_values vc, rng = random_key J 42\<rparr>"

text \<open>
  The loop of \<open>CustomSGLD.__call__\<close> over \<open>zip(grads, self.train_vars)\<close>, threading the
  key. The result is the values of the variables and the key after the loop.
\<close>

fun CustomSGLD_loop ::
  "('k, 'x) env_scheme \<Rightarrow> real \<Rightarrow> tensor list \<Rightarrow> tensor list \<Rightarrow> 'k \<Rightarrow> error + (tensor list \<times> 'k)" where
  "CustomSGLD_loop J step_size [] ps r = Inr (ps, r)"
| "CustomSGLD_loop J step_size (g # gs) [] r = Inr ([], r)"
| "CustomSGLD_loop J step_size (g # gs) (p # ps) r =
     (let (new_key, subkey) = random_split J r;
          noise = random_normal J subkey (length p)
      in and_then (jn_sqrt_scalar (2 * step_size)) (\<lambda>root.
         and_then (elementwise (+) (scalar_times (1281167 * step_size) g)
                                   (times_scalar noise root)) (\<lambda>d.
         and_then (elementwise (-) p d) (\<lambda>p'.
         and_then (CustomSGLD_loop J step_size gs ps new_key) (\<lambda>(ps', r').
         Inr (p' # ps', r'))))))"

definition CustomSGLD_call ::
  "('k, 'x) env_scheme \<Rightarrow> real \<Rightarrow> tensor list \<Rightarrow> 'k CustomSGLD \<Rightarrow> error + 'k CustomSGLD" where
  "CustomSGLD_call J step_size grads self =
     (if length grads \<noteq> length (train_vars self)
      then Inl (AssertionError ''Mismatch between gradients and variables'')
      else and_then (CustomSGLD_loop J step_size grads (train_vars self) (rng self)) (\<lambda>(ps, r).
           Inr (self\<lparr>train_vars := ps, rng := r\<rparr>)))"

text \<open>The key after \<open>i\<close> draws, and the subkey of draw number \<open>i\<close> (counted from 0).\<close>

definition key_after :: "('k, 'x) env_scheme \<Rightarrow> nat \<Rightarrow> 'k \<Rightarrow> 'k" where
  "key_after J i r = ((\<lambda>k. fst (random_split J k)) ^^ i) r"

definition subkey_at :: "('k, 'x) env_scheme \<Rightarrow> nat \<Rightarrow> 'k \<Rightarrow> 'k" where
  "subkey_at J i r = snd (random_split J (key_after J i r))"

text \<open>A sequence of calls on the same optimizer, stopping at the first exception.\<close>

fun CustomSGLD_calls ::
  "('k, 'x) env_scheme \<Rightarrow> (real \<times> tensor list) list \<Rightarrow> 'k CustomSGLD \<Rightarrow> error + 'k CustomSGLD" where
  "CustomSGLD_calls J [] self = Inr self"
| "CustomSGLD_calls J ((step_size, grads) # cs) self =
     and_then (CustomSGLD_call J step_size grads self) (CustomSGLD_calls J cs)"

section \<open>CustomPreconditionedSGLD\<close>

text \<open>
  The class has the two attributes of \<open>CustomSGLD\<close> and three more; the record extends
  that of \<open>CustomSGLD\<close> so that both keep the attribute names of the source.
\<close>

record 'k CustomPreconditionedSGLD = "'k CustomSGLD" +
  alpha :: real
  lambda_small :: real
  momentum_vars :: "tensor list"

definition CustomPreconditionedSGLD_init ::
  "('k, 'x) env_scheme \<Rightarrow> 'k variable list \<Rightarrow> 'k CustomPreconditionedSGLD" where
  "CustomPreconditionedSGLD_init J vc =
     \<lparr>train_vars = train_var_values vc, rng = random_key J 42,
      alpha = 95 / 100, lambda_small = 1 / 10 ^ 8,
      momentum_vars = map zeros_like (train_var_values vc)\<rparr>"

text \<open>
  The two assignments of the loop body that come before the update of the variable:
  \<open>m.value = alpha * m.value + (1 - alpha) * jn.square(g)\<close> and
  \<open>velocity = jn.reciprocal(jn.sqrt(m.value) + lambda_small)\<close>, which reads the value
  of \<open>m\<close> just assigned.
\<close>

definition momentum_update :: "real \<Rightarrow> tensor \<Rightarrow> tensor \<Rightarrow> error + tensor" where
  "momentum_update a m g =
     elementwise (+) (scalar_times a m) (scalar_times (1 - a) (map (\<lambda>x. x * x) g))"

definition velocity_of :: "real \<Rightarrow> tensor \<Rightarrow> error + tensor" where
  "velocity_of l m = and_then (jn_sqrt m) (\<lambda>root. jn_reciprocal (map (\<lambda>x. x + l) root))"

fun CustomPreconditionedSGLD_loop ::
  "('k, 'x) env_scheme \<Rightarrow> real \<Rightarrow> real \<Rightarrow> real \<Rightarrow> tensor list \<Rightarrow> tensor list \<Rightarrow> tensor list \<Rightarrow> 'k \<Rightarrow>
   error + (tensor list \<times> tensor list \<times> 'k)" where
  "CustomPreconditionedSGLD_loop J a l step_size (g # gs) (p # ps) (m # ms) r =
     (let (new_key, subkey) = random_split J r;
          noise = random_normal J subkey (length p)
      in and_then (momentum_update a m g) (\<lambda>m'.
         and_then (velocity_of l m') (\<lambda>velocity.
         and_then (elementwise (*) (times_scalar (scalar_times 1281167 velocity) step_size) g) (\<lambda>drift.
         and_then (jn_sqrt (scalar_times (2 * step_size) velocity)) (\<lambda>root.
         and_then (elementwise (*) noise root) (\<lambda>diffusion.
         and_then (elementwise (+) drift diffusion) (\<lambda>d.
         and_then (elementwise (-) p d) (\<lambda>p'.
         and_then (CustomPreconditionedSGLD_loop J a l step_size gs ps ms new_key) (\<lambda>(ps', ms', r').
         Inr (p' # ps', m' # ms', r'))))))))))"
| "CustomPreconditionedSGLD_loop J a l step_size gs ps ms r = Inr (ps, ms, r)"

definition CustomPreconditionedSGLD_call ::
  "('k, 'x) env_scheme \<Rightarrow> real \<Rightarrow> tensor list \<Rightarrow> 'k CustomPreconditionedSGLD \<Rightarrow>
   error + 'k CustomPreconditionedSGLD" where
  "CustomPreconditionedSGLD_call J step_size grads self =
     (if length grads \<noteq> length (train_vars self)
      then Inl (AssertionError ''Mismatch between gradients and variables'')
      else and_then (CustomPreconditionedSGLD_loop J (alpha self) (lambda_small self) step_size
                       grads (train_vars self) (momentum_vars self) (rng self)) (\<lambda>(ps, ms, r).
           Inr (self\<lparr>train_vars := ps, rng := r, momentum_vars := ms\<rparr>)))"

fun CustomPreconditionedSGLD_calls ::
  "('k, 'x) env_scheme \<Rightarrow> (real \<times> tensor list) list \<Rightarrow> 'k CustomPreconditionedSGLD \<Rightarrow>
   error + 'k CustomPreconditionedSGLD" where
  "CustomPreconditionedSGLD_calls J [] self = Inr self"
| "CustomPreconditionedSGLD_calls J ((step_size, grads) # cs) self =
     and_then (CustomPreconditionedSGLD_call J step_size grads self)
       (CustomPreconditionedSGLD_calls J cs)"

section \<open>Flags and the experiment\<close>

record flags =
  FLAGS_model_dir :: string
  FLAGS_train_device_batch_size :: int
  FLAGS_grad_acc_steps :: int
  FLAGS_eval_every_n_steps :: int
  FLAGS_num_train_epochs :: real
  FLAGS_base_learning_rate :: real
  FLAGS_lr_warmup_epochs :: real
  FLAGS_lr_schedule :: string
  FLAGS_optimizer :: string
  FLAGS_rnd_seed :: "int option"
  FLAGS_model :: string
  FLAGS_dataset :: string
  FLAGS_logit_clip :: string
  FLAGS_num_layers_to_freeze :: int

text \<open>\<open>util.construct_logit_clip_fn\<close>: the clipping function applied to each logit.\<close>

definition sigmoid :: "real \<Rightarrow> real" where
  "sigmoid x = 1 / (1 + exp (- x))"

definition construct_logit_clip_fn :: "string \<Rightarrow> error + (real \<Rightarrow> real)" where
  "construct_logit_clip_fn clip_fn =
     (if clip_fn = ''none'' then Inr (\<lambda>x. x)
      else if clip_fn = ''tanh'' then Inr (\<lambda>x. tanh x)
      else if clip_fn = ''sigmoid'' then Inr (\<lambda>x. 2 * sigmoid x)
      else if clip_fn = ''blf'' then
        Inr (\<lambda>x. 2 * (x * sigmoid x + sigmoid x - x * (sigmoid x)\<^sup>2) - 1)
      else Inl (ValueError (''Unknown clip_fn '' @ clip_fn)))"

text \<open>\<open>str.lower\<close> on the ASCII letters, which is all a model name uses.\<close>

definition lower_char :: "char \<Rightarrow> char" where
  "lower_char c =
     (let n = (of_char c :: nat) in if 65 \<le> n \<and> n \<le> 90 then char_of (n + 32) else c)"

definition lower :: "string \<Rightarrow> string" where
  "lower s = map lower_char s"

definition make_model :: "string \<Rightarrow> nat \<Rightarrow> error + model" where
  "make_model model_name0 n_classes =
     (let model_name = lower model_name0 in
      if model_name = ''resnet200'' then Inr (ResNet200 3 n_classes)
      else if model_name = ''resnet152'' then Inr (ResNet152 3 n_classes)
      else if model_name = ''resnet101'' then Inr (ResNet101 3 n_classes)
      else if model_name = ''resnet50'' then Inr (ResNet50 3 n_classes)
      else if model_name = ''resnet18'' then Inr (ResNet18 3 n_classes)
      else Inl (ValueError (''Unsupported model type: '' @ model_name)))"

text \<open>
  The optimizer object of the experiment. \<open>objax.optimizer.Momentum\<close> and
  \<open>objax.optimizer.Adam\<close> are library classes; only the values of their trainable
  variables are kept.
\<close>

datatype 'k base_optimizer =
    Momentum "tensor list"
  | Adam "tensor list"
  | SGLD "'k CustomSGLD"
  | PSGLD "'k CustomPreconditionedSGLD"

datatype 'k any_optimizer =
    Direct "'k base_optimizer"
  | Accumulating "'k base_optimizer wrapper"

fun base_train_vars :: "'k base_optimizer \<Rightarrow> tensor list" where
  "base_train_vars (Momentum vs) = vs"
| "base_train_vars (Adam vs) = vs"
| "base_train_vars (SGLD s) = train_vars s"
| "base_train_vars (PSGLD s) = train_vars s"

text \<open>
  \<open>Module.vars()\<close> is inherited from objax: it collects the attributes of the object
  that are objax variables and, recursively, those of the attributes that are modules;
  any other attribute is skipped. For the three classes of the script, in the order in
  which \<open>__init__\<close> assigns the attributes: \<open>self.rng\<close> is assigned a JAX key and
  \<open>self.scaler\<close> a number, neither of them a variable.
\<close>

fun base_optimizer_vars :: "'k base_optimizer \<Rightarrow> 'k variable list" where
  "base_optimizer_vars (Momentum vs) = map TrainRef vs"
| "base_optimizer_vars (Adam vs) = map TrainRef vs"
| "base_optimizer_vars (SGLD s) = map TrainRef (train_vars s)"
| "base_optimizer_vars (PSGLD s) =
     map TrainRef (train_vars s) @ [StateVar [alpha s], StateVar [lambda_small s]]
       @ map StateVar (momentum_vars s)"

fun optimizer_vars :: "'k any_optimizer \<Rightarrow> 'k variable list" where
  "optimizer_vars (Direct b) = base_optimizer_vars b"
| "optimizer_vars (Accumulating w) = base_optimizer_vars (optimizer w) @ map StateVar (accum w)"

record 'k Experiment =
  total_num_replicas :: nat
  total_batch_size :: int
  base_learning_rate :: real
  save_summaries :: bool
  lr_warmup_epochs :: real
  num_train_epochs :: real
  logit_clip_fn :: "real \<Rightarrow> real"
  train_split :: split_info
  eval_split :: split_info
  model :: model
  model_vars :: "'k variable list"
  trainable_vars :: "'k variable list"
  experiment_optimizer :: "'k any_optimizer"
  generator_seed :: int

text \<open>
  \<open>Experiment.__init__\<close>, with the seed the default generator holds when it runs. The
  gradient function, the parallel operations and the summary writer are library objects
  whose construction is not modelled.
\<close>

definition make_optimizer ::
  "('k, 'x) env_scheme \<Rightarrow> string \<Rightarrow> 'k variable list \<Rightarrow> error + 'k base_optimizer" where
  "make_optimizer J name vc =
     (if name = ''momentum'' then Inr (Momentum (train_var_values vc))
      else if name = ''adam'' then Inr (Adam (train_var_values vc))
      else if name = ''sgld'' then Inr (SGLD (CustomSGLD_init J vc))
      else if name = ''psgld'' then Inr (PSGLD (CustomPreconditionedSGLD_init J vc))
      else Inl (ValueError (''Unsupported optimizer: '' @ name)))"

definition wrap_optimizer :: "int \<Rightarrow> 'k base_optimizer \<Rightarrow> error + 'k any_optimizer" where
  "wrap_optimizer k b =
     (if k > 1 then
        Inr (Accumulating (GradientAccumulationOptimizerWrapper_init base_train_vars b (1 / real_of_int k)))
      else if k \<noteq> 1 then Inl (ValueError ''--grad_acc_steps has to be greater or equal to 1.'')
      else Inr (Direct b))"

definition Experiment_init :: "('k, 'x) env_scheme \<Rightarrow> flags \<Rightarrow> int \<Rightarrow> error + 'k Experiment" where
  "Experiment_init J F seed =
     (let replicas = device_count J;
          batch = FLAGS_train_device_batch_size F * int replicas;
          rate = FLAGS_base_learning_rate F * real_of_int batch * real_of_int (FLAGS_grad_acc_steps F) / 256
      in and_then (construct_logit_clip_fn (FLAGS_logit_clip F)) (\<lambda>clip.
         and_then (get_train_dataset_split J (FLAGS_dataset F)) (\<lambda>tsplit.
         and_then (get_eval_dataset_split J (FLAGS_dataset F)) (\<lambda>esplit.
         and_then (make_model (FLAGS_model F) (num_classes tsplit)) (\<lambda>m.
         let mvars = module_vars J seed m 0;
             tvars = (if FLAGS_num_layers_to_freeze F > 0
                      then module_vars J seed m (FLAGS_num_layers_to_freeze F) else mvars)
         in and_then (make_optimizer J (FLAGS_optimizer F) tvars) (\<lambda>b.
            and_then (wrap_optimizer (FLAGS_grad_acc_steps F) b) (\<lambda>opt.
            Inr \<lparr>total_num_replicas = replicas, total_batch_size = batch,
                 base_learning_rate = rate, save_summaries = (FLAGS_model_dir F \<noteq> ''''),
                 lr_warmup_epochs = FLAGS_lr_warmup_epochs F,
                 num_train_epochs = FLAGS_num_train_epochs F,
                 logit_clip_fn = clip, train_split = tsplit, eval_split = esplit,
                 model = m, model_vars = mvars, trainable_vars = tvars,
                 experiment_optimizer = opt, generator_seed = seed\<rparr>)))))))"

text \<open>
  \<open>self.all_vars\<close>, the collection handed to \<open>checkpoint.restore\<close> and
  \<open>checkpoint.save\<close>, read from the current state of the experiment.
\<close>

definition all_vars :: "('k, 'x) env_scheme \<Rightarrow> 'k Experiment \<Rightarrow> 'k variable list" where
  "all_vars J self =
     model_vars self @ optimizer_vars (experiment_optimizer self) @ generator_vars J (generator_seed self)"

text \<open>
  \<open>main\<close> up to the construction of the experiment: the seed is the flag when it is set
  and the integer read from \<open>os.urandom\<close> otherwise.
\<close>

definition main :: "('k, 'x) env_scheme \<Rightarrow> flags \<Rightarrow> int \<Rightarrow> error + 'k Experiment" where
  "main J F urandom =
     (let rnd_seed = (case FLAGS_rnd_seed F of Some s \<Rightarrow> s | None \<Rightarrow> urandom)
      in Experiment_init J F rnd_seed)"

section \<open>The learning-rate schedule\<close>

text \<open>
  A float division by zero gives an infinity or a NaN, not an exception; the result
  \<open>None\<close> stands for such a value, which then propagates through the cosine and the
  product. \<open>jn.where\<close> selects between the two values by the comparison.
\<close>

definition float_div :: "real \<Rightarrow> real \<Rightarrow> real option" where
  "float_div a b = (if b = 0 then None else Some (a / b))"

definition learning_rate :: "flags \<Rightarrow> ('k, 'y) Experiment_scheme \<Rightarrow> real \<Rightarrow> error + real option" where
  "learning_rate F self epoch0 =
     (let epoch = min epoch0 (num_train_epochs self) in
      if FLAGS_lr_schedule F = ''cos'' then
        (let cos_decay_epochs = num_train_epochs self - lr_warmup_epochs self;
             lr_multiplier =
               (if epoch < lr_warmup_epochs self
                then float_div epoch (lr_warmup_epochs self)
                else map_option (\<lambda>x. 0.5 * (1 + cos x))
                       (float_div (pi * (epoch - lr_warmup_epochs self)) cos_decay_epochs))
         in Inr (map_option (\<lambda>m. base_learning_rate self * m) lr_multiplier))
      else if FLAGS_lr_schedule F = ''fixed'' then
        (let lr_multiplier =
               (if epoch < lr_warmup_epochs self
                then float_div epoch (lr_warmup_epochs self)
                else Some 1)
         in Inr (map_option (\<lambda>m. base_learning_rate self * m) lr_multiplier))
      else Inl (ValueError (''Unsupported LR schedule: '' @ FLAGS_lr_schedule F)))"

section \<open>The training loop\<close>

text \<open>
  Python's \<open>range(start, stop, step)\<close> and \<open>int(x)\<close> on a float. Integer \<open>//\<close> and
  \<open>%\<close> round towards minus infinity, as \<open>div\<close> and \<open>mod\<close> on \<open>int\<close> do.
\<close>

definition py_range3 :: "int \<Rightarrow> int \<Rightarrow> int \<Rightarrow> error + int list" where
  "py_range3 start stop step =
     (if step = 0 then Inl (ValueError ''range() arg 3 must not be zero'')
      else if step > 0 then
        Inr (map (\<lambda>i. start + int i * step) [0..<nat ((stop - start + step - 1) div step)])
      else
        Inr (map (\<lambda>i. start + int i * step) [0..<nat ((start - stop - step - 1) div (- step))]))"

definition py_int :: "real \<Rightarrow> int" where
  "py_int x = (if x \<ge> 0 then \<lfloor>x\<rfloor> else \<lceil>x\<rceil>)"

definition next_update_step :: "int \<Rightarrow> int \<Rightarrow> int" where
  "next_update_step cur_step k = (cur_step + k - 1) div k * k"

text \<open>
  The three assignments of the inner loop body for the virtual step \<open>cur_step\<close>: the
  result is the pair \<open>(cur_epoch, apply_updates)\<close> handed to \<open>train_op_parallel\<close>.
\<close>

definition step_arguments :: "flags \<Rightarrow> real \<Rightarrow> int \<Rightarrow> error + (real \<times> bool)" where
  "step_arguments F steps_per_epoch cur_step =
     (if FLAGS_grad_acc_steps F = 0 then Inl ZeroDivisionError
      else
        (let next_step = next_update_step cur_step (FLAGS_grad_acc_steps F) in
         if steps_per_epoch = 0 then Inl ZeroDivisionError
         else
           (let cur_epoch = real_of_int next_step / steps_per_epoch;
                apply_updates = (cur_step mod FLAGS_grad_acc_steps F = 0)
            in Inr (cur_epoch, apply_updates))))"

text \<open>
  The virtual steps of \<open>train_and_eval\<close> in the order in which they run, each with the
  arguments it hands to the training operation, as long as no step raises: the outer loop
  over \<open>range(start_step, total_train_steps, eval_every_n_steps)\<close> and the inner loop over
  \<open>range(big_step + 1, big_step + eval_every_n_steps + 1)\<close>.
\<close>

fun inner_steps :: "flags \<Rightarrow> real \<Rightarrow> int list \<Rightarrow> error + (int \<times> real \<times> bool) list" where
  "inner_steps F steps_per_epoch [] = Inr []"
| "inner_steps F steps_per_epoch (cur_step # rest) =
     and_then (step_arguments F steps_per_epoch cur_step) (\<lambda>(cur_epoch, apply_updates).
     and_then (inner_steps F steps_per_epoch rest) (\<lambda>xs.
     Inr ((cur_step, cur_epoch, apply_updates) # xs)))"

fun outer_steps :: "flags \<Rightarrow> real \<Rightarrow> int list \<Rightarrow> error + (int \<times> real \<times> bool) list" where
  "outer_steps F steps_per_epoch [] = Inr []"
| "outer_steps F steps_per_epoch (big_step # rest) =
     and_then (inner_steps F steps_per_epoch [big_step + 1 .. big_step + FLAGS_eval_every_n_steps F]) (\<lambda>xs.
     and_then (outer_steps F steps_per_epoch rest) (\<lambda>ys.
     Inr (xs @ ys)))"

definition train_and_eval_steps ::
  "flags \<Rightarrow> ('k, 'y) Experiment_scheme \<Rightarrow> int \<Rightarrow> error + (int \<times> real \<times> bool) list" where
  "train_and_eval_steps F self start_step =
     (if total_batch_size self = 0 then Inl ZeroDivisionError
      else
        (let steps_per_epoch = real (num_examples (train_split self)) / real_of_int (total_batch_size self);
             total_train_steps = py_int (steps_per_epoch * FLAGS_num_train_epochs F)
         in and_then (py_range3 start_step total_train_steps (FLAGS_eval_every_n_steps F)) (\<lambda>big_steps.
            outer_steps F steps_per_epoch big_steps)))"

section \<open>Reference formulas for the updates\<close>

text \<open>
  The update of the specification for one variable of plain SGLD:
  \<open>p - (N * step_size * g + n * sqrt (2 * step_size))\<close> for every element, with
  \<open>N = 1281167\<close>, the constant of the source.
\<close>

definition langevin_step :: "real \<Rightarrow> tensor \<Rightarrow> tensor \<Rightarrow> tensor \<Rightarrow> tensor" where
  "langevin_step step_size p g n =
     map (\<lambda>e. p ! e - (1281167 * step_size * g ! e + n ! e * sqrt (2 * step_size)))
         [0..<length p]"

text \<open>
  A concrete environment for evaluating the definitions on concrete inputs: keys are
  natural numbers, a split of \<open>k\<close> gives \<open>2 * k\<close> as the next key and \<open>2 * k + 1\<close> as
  the subkey, and the array drawn from key \<open>k\<close> holds \<open>k\<close> in every element.
\<close>

definition toy_env :: "nat env" where
  "toy_env =
     \<lparr>random_key = (\<lambda>s. nat s),
      random_split = (\<lambda>k. (2 * k, 2 * k + 1)),
      random_normal = (\<lambda>k n. replicate n (real k)),
      device_count = 1,
      get_train_dataset_split = (\<lambda>d. if d = ''imagenet''
         then Inr \<lparr>num_classes = 1000, num_examples = 1281167\<rparr>
         else Inl (ValueError ''Unknown dataset'')),
      get_eval_dataset_split = (\<lambda>d. if d = ''imagenet''
         then Inr \<lparr>num_classes = 1000, num_examples = 50000\<rparr>
         else Inl (ValueError ''Unknown dataset'')),
      module_vars = (\<lambda>seed m n. [TrainVar [real_of_int seed, 1], StateVar [0], TrainVar [2]]),
      generator_vars = (\<lambda>seed. [RandomState (nat seed)])\<rparr>"

text \<open>
  The update of one variable of preconditioned SGLD:
  \<open>p - (N * v * step_size * g + n * sqrt (2 * step_size * v))\<close> for every element, and
  the moving average \<open>alpha * m + (1 - alpha) * g\<^sup>2\<close> it is computed from.
\<close>

definition preconditioned_step :: "real \<Rightarrow> tensor \<Rightarrow> tensor \<Rightarrow> tensor \<Rightarrow> tensor \<Rightarrow> tensor" where
  "preconditioned_step step_size v p g n =
     map (\<lambda>e. p ! e - (1281167 * v ! e * step_size * g ! e + n ! e * sqrt (2 * step_size * v ! e)))
         [0..<length p]"

definition moving_average :: "real \<Rightarrow> tensor \<Rightarrow> tensor \<Rightarrow> tensor" where
  "moving_average a m g = map (\<lambda>e. a * m ! e + (1 - a) * (g ! e * g ! e)) [0..<length m]"

text \<open>
  The default values of the flags, as the script defines them, and the experiment that
  \<open>Experiment_init\<close> builds from them in \<open>toy_env\<close> with the seed 0.
\<close>

definition default_flags :: flags where
  "default_flags =
     \<lparr>FLAGS_model_dir = ''/tmp/model_dir'',
      FLAGS_train_device_batch_size = 128,
      FLAGS_grad_acc_steps = 1,
      FLAGS_eval_every_n_steps = 1000,
      FLAGS_num_train_epochs = 10,
      FLAGS_base_learning_rate = 2,
      FLAGS_lr_warmup_epochs = 1,
      FLAGS_lr_schedule = ''cos'',
      FLAGS_optimizer = ''momentum'',
      FLAGS_rnd_seed = None,
      FLAGS_model = ''resnet18'',
      FLAGS_dataset = ''imagenet'',
      FLAGS_logit_clip = ''none'',
      FLAGS_num_layers_to_freeze = 0\<rparr>"

definition toy_experiment :: "nat Experiment" where
  "toy_experiment =
     \<lparr>total_num_replicas = 1, total_batch_size = 128, base_learning_rate = 1,
      save_summaries = True, lr_warmup_epochs = 1, num_train_epochs = 10,
      logit_clip_fn = (\<lambda>x. x),
      train_split = \<lparr>num_classes = 1000, num_examples = 1281167\<rparr>,
      eval_split = \<lparr>num_classes = 1000, num_examples = 50000\<rparr>,
      model = ResNet18 3 1000,
      model_vars = [TrainVar [0, 1], StateVar [0], TrainVar [2]],
      trainable_vars = [TrainVar [0, 1], StateVar [0], TrainVar [2]],
      experiment_optimizer = Direct (Momentum [[0, 1], [2]]),
      generator_seed = 0\<rparr>"

text \<open>
  The optimizer object that carries out the updates of an experiment: the optimizer
  itself, or the one the accumulation wrapper holds.
\<close>

fun sampler_of :: "'k any_optimizer \<Rightarrow> 'k base_optimizer" where
  "sampler_of (Direct b) = b"
| "sampler_of (Accumulating w) = optimizer w"

text \<open>
  The noise array of draw number \<open>d\<close> (counted from 0) and shape \<open>n\<close> of the stream
  that starts at \<open>jax.random.key(42)\<close>: it is a function of \<open>d\<close> and \<open>n\<close> alone.
\<close>

definition noise_of_draw :: "('k, 'x) env_scheme \<Rightarrow> nat \<Rightarrow> nat \<Rightarrow> tensor" where
  "noise_of_draw J d n = random_normal J (subkey_at J d (random_key J 42)) n"

text \<open>
  The preconditioner \<open>1 / (sqrt m + lambda)\<close> of the specification, and the states that
  the call number \<open>c\<close> (counted from 0) of a sampler leaves behind when the draws of its
  stream are those of \<open>noise_of_draw\<close>: variable \<open>i\<close> of that call takes the draw number
  \<open>c * n + i\<close>, where \<open>n\<close> is the number of variables.
\<close>

definition preconditioner :: "real \<Rightarrow> tensor \<Rightarrow> tensor" where
  "preconditioner l m = map (\<lambda>x. 1 / (sqrt x + l)) m"

definition sgld_result ::
  "('k, 'x) env_scheme \<Rightarrow> nat \<Rightarrow> real \<Rightarrow> tensor list \<Rightarrow> 'k CustomSGLD \<Rightarrow> 'k CustomSGLD" where
  "sgld_result J c step_size grads self =
     self\<lparr>train_vars :=
            map (\<lambda>i. langevin_step step_size (train_vars self ! i) (grads ! i)
                   (noise_of_draw J (c * length (train_vars self) + i) (length (train_vars self ! i))))
                [0..<length (train_vars self)],
          rng := key_after J ((c + 1) * length (train_vars self)) (random_key J 42)\<rparr>"

definition psgld_result ::
  "('k, 'x) env_scheme \<Rightarrow> nat \<Rightarrow> real \<Rightarrow> tensor list \<Rightarrow> 'k CustomPreconditionedSGLD \<Rightarrow>
   'k CustomPreconditionedSGLD" where
  "psgld_result J c step_size grads self =
     self\<lparr>train_vars :=
            map (\<lambda>i. preconditioned_step step_size
                   (preconditioner (lambda_small self)
                      (moving_average (alpha self) (momentum_vars self ! i) (grads ! i)))
                   (train_vars self ! i) (grads ! i)
                   (noise_of_draw J (c * length (train_vars self) + i) (length (train_vars self ! i))))
                [0..<length (train_vars self)],
          rng := key_after J ((c + 1) * length (train_vars self)) (random_key J 42),
          momentum_vars :=
            map (\<lambda>i. moving_average (alpha self) (momentum_vars self ! i) (grads ! i))
                [0..<length (train_vars self)]\<rparr>"

section \<open>Properties of the wrapper\<close>

lemma aligned_length: "aligned gs as \<Longrightarrow> length gs = length as"
  unfolding aligned_def by (metis length_map)

lemma aligned_Cons: "aligned (g # gs) (a # as) \<longleftrightarrow> length g = length a \<and> aligned gs as"
  by (simp add: aligned_def)

lemma aligned_Nil: "aligned [] as \<longleftrightarrow> as = []" "aligned gs [] \<longleftrightarrow> gs = []"
  by (auto simp: aligned_def)

lemma accumulate_aligned:
  "aligned gs as \<Longrightarrow> accumulate sc gs as = Inr (accumulated sc gs as)"
proof (induction sc gs as rule: accumulate.induct)
  case (1 sc as)
  then show ?case by (simp add: aligned_Nil accumulated_def)
next
  case (2 sc g gs)
  then show ?case by (simp add: aligned_Nil)
next
  case (3 sc g gs a as)
  then have len: "length g = length a" and rest: "aligned gs as"
    by (simp_all add: aligned_Cons)
  have head: "elementwise (+) a (times_scalar g sc) = Inr (map2 (\<lambda>x y. y + x * sc) g a)"
    using len by (simp add: elementwise_def times_scalar_def zip_map2 zip_commute [of a g] case_prod_unfold)
  show ?case
    using 3 rest head by (simp add: accumulated_def)
qed

lemma accumulated_aligned: "aligned gs as \<Longrightarrow> aligned (accumulated sc gs as) as"
  unfolding aligned_def accumulated_def
  by (induction gs as rule: list_induct2') auto

lemma and_then_simps [simp]:
  "and_then (Inl e) f = Inl e" "and_then (Inr v) f = f v"
  by (simp_all add: and_then_def)

lemma and_then_Inr:
  "and_then r f = Inr y \<Longrightarrow> \<exists>v. r = Inr v \<and> f v = Inr y"
  by (cases r) simp_all

lemma accumulated_shapes: "aligned gs as \<Longrightarrow> map length (accumulated sc gs as) = map length as"
  using accumulated_aligned [of gs as sc] by (simp add: aligned_def)

lemma zeros_like_shapes:
  assumes "map length A = map length B"
  shows "map zeros_like A = map zeros_like B"
proof -
  have r: "\<And>X. map zeros_like X = map (\<lambda>n. replicate n 0) (map length X)"
    by (simp add: zeros_like_def comp_def)
  show ?thesis using assms by (simp only: r)
qed

lemma call_no_apply:
  assumes "aligned grads (accum w)" and "length grads = length (tv (optimizer w))"
  shows "GradientAccumulationOptimizerWrapper_call tv opt lr grads False w =
             Inr (w\<lparr>accum := accumulated (scaler w) grads (accum w)\<rparr>)"
  using assms
  by (simp add: GradientAccumulationOptimizerWrapper_call_def accumulate_aligned)

lemma call_apply:
  assumes "aligned grads (accum w)" and "length grads = length (tv (optimizer w))"
  shows "GradientAccumulationOptimizerWrapper_call tv opt lr grads True w =
           (case opt lr (accumulated (scaler w) grads (accum w)) (optimizer w) of
              Inl e \<Rightarrow> Inl e
            | Inr optimizer' \<Rightarrow>
                Inr (w\<lparr>optimizer := optimizer',
                       accum := map zeros_like (accumulated (scaler w) grads (accum w))\<rparr>))"
  using assms
  by (simp add: GradientAccumulationOptimizerWrapper_call_def accumulate_aligned)

lemma accumulated_nth:
  assumes "aligned g A" and "i < length A" and "e < length (A ! i)"
  shows "accumulated sc g A ! i ! e = A ! i ! e + g ! i ! e * sc"
proof -
  have lg: "length g = length A" using assms(1) by (rule aligned_length)
  have "length (g ! i) = length (A ! i)"
    using assms(1,2) lg unfolding aligned_def by (metis nth_map)
  then show ?thesis
    using assms lg by (simp add: accumulated_def)
qed

lemma fold_accumulated_shapes:
  "\<forall>g\<in>set gss. aligned g A \<Longrightarrow> map length (fold (accumulated sc) gss A) = map length A"
proof (induction gss arbitrary: A)
  case Nil
  then show ?case by simp
next
  case (Cons g gss)
  have s: "map length (accumulated sc g A) = map length A"
    using Cons.prems by (simp add: accumulated_shapes)
  then have "\<forall>h\<in>set gss. aligned h (accumulated sc g A)"
    using Cons.prems by (simp add: aligned_def)
  then show ?case using Cons.IH s by simp
qed

lemma fold_accumulated_nth:
  "\<forall>g\<in>set gss. aligned g A \<Longrightarrow> i < length A \<Longrightarrow> e < length (A ! i) \<Longrightarrow>
     fold (accumulated sc) gss A ! i ! e = A ! i ! e + (\<Sum>g\<leftarrow>gss. g ! i ! e) * sc"
proof (induction gss arbitrary: A)
  case Nil
  then show ?case by simp
next
  case (Cons g gss)
  let ?B = "accumulated sc g A"
  have s: "map length ?B = map length A"
    using Cons.prems by (simp add: accumulated_shapes)
  have al: "\<forall>h\<in>set gss. aligned h ?B"
    using Cons.prems s by (simp add: aligned_def)
  have li: "i < length ?B" using s Cons.prems(2) by (metis length_map)
  have le: "e < length (?B ! i)" using s Cons.prems(2,3) li by (metis nth_map)
  have "fold (accumulated sc) gss ?B ! i ! e = ?B ! i ! e + (\<Sum>g\<leftarrow>gss. g ! i ! e) * sc"
    using Cons.IH [OF al li le] .
  moreover have "?B ! i ! e = A ! i ! e + g ! i ! e * sc"
    using Cons.prems by (simp add: accumulated_nth)
  ultimately show ?case by (simp add: algebra_simps)
qed

lemma wrapper_calls_append:
  "wrapper_calls tv opt (xs @ ys) w =
     (case wrapper_calls tv opt xs w of Inl e \<Rightarrow> Inl e | Inr w' \<Rightarrow> wrapper_calls tv opt ys w')"
  by (induction xs arbitrary: w) (auto split: sum.splits)

lemma calls_without_apply:
  "\<forall>g\<in>set (map snd pre). aligned g (accum w) \<Longrightarrow>
   \<forall>g\<in>set (map snd pre). length g = length (tv (optimizer w)) \<Longrightarrow>
   wrapper_calls tv opt (map (\<lambda>(lr, g). (lr, g, False)) pre) w =
     Inr (w\<lparr>accum := fold (accumulated (scaler w)) (map snd pre) (accum w)\<rparr>)"
proof (induction pre arbitrary: w)
  case Nil
  then show ?case by simp
next
  case (Cons c pre)
  obtain lr g where c: "c = (lr, g)" by (cases c)
  let ?w = "w\<lparr>accum := accumulated (scaler w) g (accum w)\<rparr>"
  have g: "aligned g (accum w)" "length g = length (tv (optimizer w))"
    using Cons.prems c by simp_all
  have s: "map length (accum ?w) = map length (accum w)"
    using g by (simp add: accumulated_shapes)
  have a1: "\<forall>h\<in>set (map snd pre). aligned h (accum ?w)"
    using Cons.prems(1) s by (simp add: aligned_def)
  have a2: "\<forall>h\<in>set (map snd pre). length h = length (tv (optimizer ?w))"
    using Cons.prems(2) by simp
  show ?case
    using Cons.IH [OF a1 a2] g c by (simp add: call_no_apply)
qed

lemma accumulated_is_mean:
  assumes al: "\<forall>g\<in>set (map snd pre @ [gk]). aligned g S"
  shows "accumulated (1 / real (length pre + 1)) gk
           (fold (accumulated (1 / real (length pre + 1))) (map snd pre) (map zeros_like S))
         = mean_of_gradients (map snd pre @ [gk])"
    (is "?L = ?R")
proof -
  let ?sc = "1 / real (length pre + 1)"
  let ?Z = "map zeros_like S"
  let ?gss = "map snd pre @ [gk]"
  have Z: "map length ?Z = map length S" by (simp add: zeros_like_def)
  have alZ: "\<forall>g\<in>set (map snd pre). aligned g ?Z" "aligned gk ?Z"
    using al Z by (simp_all add: aligned_def)
  let ?F = "fold (accumulated ?sc) (map snd pre) ?Z"
  have F: "map length ?F = map length S"
    using fold_accumulated_shapes [OF alZ(1)] Z by simp
  have gkF: "aligned gk ?F" using al F by (simp add: aligned_def)
  have L: "map length ?L = map length S"
    using accumulated_shapes [OF gkF] F by simp
  have hd_shape: "map length (hd ?gss) = map length S"
    using al by (cases pre) (auto simp: aligned_def)
  have lenS: "length (hd ?gss) = length S" using hd_shape by (metis length_map)
  have lenL: "length ?L = length S" using L by (metis length_map)
  show ?thesis
  proof (rule nth_equalityI)
    show "length ?L = length ?R" using lenL lenS by (simp add: mean_of_gradients_def)
  next
    fix i assume "i < length ?L"
    then have i: "i < length S" using lenL by simp
    have li: "length (?L ! i) = length (S ! i)" using L i lenL by (metis nth_map)
    have hi: "length (hd ?gss ! i) = length (S ! i)" using hd_shape i lenS by (metis nth_map)
    have Fi: "i < length ?F" "length (?F ! i) = length (S ! i)"
      using F i by (metis length_map, metis length_map nth_map)
    have Zi: "i < length ?Z" "length (?Z ! i) = length (S ! i)"
      using i by (simp_all add: zeros_like_def)
    show "?L ! i = ?R ! i"
    proof (rule nth_equalityI)
      show "length (?L ! i) = length (?R ! i)"
        using li hi i lenS by (simp add: mean_of_gradients_def)
    next
      fix e assume "e < length (?L ! i)"
      then have e: "e < length (S ! i)" using li by simp
      have "?L ! i ! e = ?F ! i ! e + gk ! i ! e * ?sc"
        using accumulated_nth [OF gkF Fi(1)] e Fi(2) by simp
      also have "?F ! i ! e = ?Z ! i ! e + (\<Sum>g\<leftarrow>map snd pre. g ! i ! e) * ?sc"
        using fold_accumulated_nth [OF alZ(1) Zi(1)] e Zi(2) by simp
      also have "?Z ! i ! e = 0" using i e by (simp add: zeros_like_def)
      finally have "?L ! i ! e = (\<Sum>g\<leftarrow>?gss. g ! i ! e) / real (length ?gss)"
        by (simp add: algebra_simps add_divide_distrib)
      then show "?L ! i ! e = ?R ! i ! e"
        using i e hi lenS by (simp add: mean_of_gradients_def)
    qed
  qed
qed

lemma accumulation_cycle:
  assumes al: "\<forall>g\<in>set (map snd pre @ [gk]). aligned g (tv s0)"
  shows "wrapper_calls tv opt (map (\<lambda>(lr, g). (lr, g, False)) pre @ [(lrk, gk, True)])
           (GradientAccumulationOptimizerWrapper_init tv s0 (1 / real (length pre + 1)))
         = (case opt lrk (mean_of_gradients (map snd pre @ [gk])) s0 of
              Inl e \<Rightarrow> Inl e
            | Inr s' \<Rightarrow> Inr \<lparr>scaler = 1 / real (length pre + 1), optimizer = s',
                             accum = map zeros_like (tv s0)\<rparr>)"
proof -
  let ?sc = "1 / real (length pre + 1)"
  let ?w0 = "GradientAccumulationOptimizerWrapper_init tv s0 ?sc"
  let ?Z = "map zeros_like (tv s0)"
  have w0: "accum ?w0 = ?Z" "optimizer ?w0 = s0" "scaler ?w0 = ?sc"
    by (simp_all add: GradientAccumulationOptimizerWrapper_init_def)
  have Z: "map length ?Z = map length (tv s0)" by (simp add: zeros_like_def)
  have a1: "\<forall>g\<in>set (map snd pre). aligned g (accum ?w0)"
    using al Z w0 by (simp add: aligned_def)
  have a2: "\<forall>g\<in>set (map snd pre). length g = length (tv (optimizer ?w0))"
    using al w0 by (auto dest: aligned_length)
  let ?F = "fold (accumulated ?sc) (map snd pre) ?Z"
  let ?w1 = "?w0\<lparr>accum := ?F\<rparr>"
  have pre: "wrapper_calls tv opt (map (\<lambda>(lr, g). (lr, g, False)) pre) ?w0 = Inr ?w1"
    using calls_without_apply [of pre ?w0 tv opt] a1 a2 w0 by simp
  have F: "map length ?F = map length (tv s0)"
    using fold_accumulated_shapes [of "map snd pre" ?Z ?sc] a1 w0 Z by simp
  have k1: "aligned gk (accum ?w1)" using al F by (simp add: aligned_def)
  have k2: "length gk = length (tv (optimizer ?w1))"
    using al w0 by (auto dest: aligned_length)
  have mean: "accumulated ?sc gk ?F = mean_of_gradients (map snd pre @ [gk])"
    using accumulated_is_mean [OF al] .
  have zs: "map zeros_like (mean_of_gradients (map snd pre @ [gk])) = ?Z"
  proof -
    have "map length (accumulated ?sc gk ?F) = map length (tv s0)"
      using accumulated_shapes [of gk ?F ?sc] k1 F by simp
    then show ?thesis unfolding mean by (rule zeros_like_shapes)
  qed
  have last: "GradientAccumulationOptimizerWrapper_call tv opt lrk gk True ?w1 =
      (case opt lrk (mean_of_gradients (map snd pre @ [gk])) s0 of
              Inl e \<Rightarrow> Inl e
            | Inr s' \<Rightarrow> Inr \<lparr>scaler = ?sc, optimizer = s', accum = ?Z\<rparr>)"
    using call_apply [of gk ?w1 tv opt lrk] k1 k2 mean zs w0
    by (simp add: GradientAccumulationOptimizerWrapper_init_def split: sum.splits)
  show ?thesis
    unfolding wrapper_calls_append pre using last by (simp split: sum.splits)
qed

lemma zeros_like_all_zero: "\<forall>a\<in>set (map zeros_like as). \<forall>x\<in>set a. x = 0"
  by (auto simp: zeros_like_def)

section \<open>C7: the buffers are reset after the wrapped optimizer has run\<close>

text \<open>
  Claim C7. A call of the wrapper with \<open>apply_updates\<close> true hands the buffered values
  (the buffers after this call's addition, not yet reset) to the wrapped optimizer; when
  that call returns, the wrapper holds the optimizer's new state and buffers of the same
  shapes whose elements are all zero, and when it raises, the wrapper raises the same
  exception and no reset has been done. With \<open>apply_updates\<close> false the buffers hold the
  accumulated values, nothing is reset and the optimizer is not touched. The gradients
  are one per buffer and per trainable variable, of the buffers' shapes.
\<close>

theorem buffer_reset_after_apply:
  assumes "aligned grads (accum w)" and "length grads = length (tv (optimizer w))"
  shows "GradientAccumulationOptimizerWrapper_call tv opt lr grads True w =
           (case opt lr (accumulated (scaler w) grads (accum w)) (optimizer w) of
              Inl e \<Rightarrow> Inl e
            | Inr optimizer' \<Rightarrow>
                Inr (w\<lparr>optimizer := optimizer', accum := map zeros_like (accum w)\<rparr>))
         \<and> (\<forall>a\<in>set (map zeros_like (accum w)). \<forall>x\<in>set a. x = 0)
         \<and> GradientAccumulationOptimizerWrapper_call tv opt lr grads False w =
             Inr (w\<lparr>accum := accumulated (scaler w) grads (accum w)\<rparr>)"
proof -
  have z: "map zeros_like (accumulated (scaler w) grads (accum w)) = map zeros_like (accum w)"
    using assms(1) by (intro zeros_like_shapes accumulated_shapes)
  show ?thesis
    using assms z
    by (simp add: call_apply call_no_apply zeros_like_all_zero split: sum.splits)
qed

theorem buffer_reset_after_apply_witness:
  "GradientAccumulationOptimizerWrapper_call (\<lambda>p. p)
      (\<lambda>lr g p. Inr (map2 (map2 (\<lambda>x y. x - lr * y)) p g)) 1 [[2, 4]] True
      \<lparr>scaler = 1 / 2, optimizer = [[1, 2]], accum = [[3, 4]]\<rparr>
     = Inr \<lparr>scaler = 1 / 2, optimizer = [[-3, -4]], accum = [[0, 0]]\<rparr>
   \<and> GradientAccumulationOptimizerWrapper_call (\<lambda>p. p)
      (\<lambda>lr g p. Inr (map2 (map2 (\<lambda>x y. x - lr * y)) p g)) 1 [[2, 4]] False
      \<lparr>scaler = 1 / 2, optimizer = [[1, 2]], accum = [[3, 4]]\<rparr>
     = Inr \<lparr>scaler = 1 / 2, optimizer = [[1, 2]], accum = [[4, 6]]\<rparr>"
  using buffer_reset_after_apply [of "[[2, 4]]" "\<lparr>scaler = 1 / 2, optimizer = [[1, 2]], accum = [[3, 4]]\<rparr>"
      "\<lambda>p. p" "\<lambda>lr g p. Inr (map2 (map2 (\<lambda>x y. x - lr * y)) p g)" 1]
  by (simp add: aligned_def accumulated_def zeros_like_def)

section \<open>C1: accumulating k gradients is one update with their mean\<close>

text \<open>
  Claim C1. Let \<open>g_1..g_k\<close> (\<open>k \<ge> 1\<close>: the gradients of \<open>pre\<close> and then \<open>gk\<close>) be
  gradient lists aligned with the trainable variables, and let a wrapper be constructed
  with \<open>scaler = 1/k\<close>. Calling it once per gradient list, with \<open>apply_updates\<close> true on
  the last call only, gives exactly what one direct call of the wrapped optimizer on the
  elementwise mean of \<open>g_1..g_k\<close> gives (the same new state, or the same exception), with
  the step size of the last call, and leaves the buffers zero. Wrapping an optimizer that
  only records its calls shows that the wrapped optimizer is called exactly once, with the
  mean as argument. Floats are real numbers here, so the sum the buffers hold is the mean
  exactly.
\<close>

theorem accumulation_equivalence:
  assumes "\<forall>g\<in>set (map snd pre @ [gk]). aligned g (tv s0)"
  shows "wrapper_calls tv opt (map (\<lambda>(lr, g). (lr, g, False)) pre @ [(lrk, gk, True)])
           (GradientAccumulationOptimizerWrapper_init tv s0 (1 / real (length pre + 1)))
         = (case opt lrk (mean_of_gradients (map snd pre @ [gk])) s0 of
              Inl e \<Rightarrow> Inl e
            | Inr s' \<Rightarrow> Inr \<lparr>scaler = 1 / real (length pre + 1), optimizer = s',
                             accum = map zeros_like (tv s0)\<rparr>)
       \<and> wrapper_calls fst (\<lambda>lr g (vs, calls). Inr (vs, calls @ [(lr, g)]))
           (map (\<lambda>(lr, g). (lr, g, False)) pre @ [(lrk, gk, True)])
           (GradientAccumulationOptimizerWrapper_init fst (tv s0, []) (1 / real (length pre + 1)))
         = Inr \<lparr>scaler = 1 / real (length pre + 1),
                optimizer = (tv s0, [(lrk, mean_of_gradients (map snd pre @ [gk]))]),
                accum = map zeros_like (tv s0)\<rparr>"
proof -
  have a: "\<forall>g\<in>set (map snd pre @ [gk]). aligned g (fst (tv s0, []::(real \<times> tensor list) list))"
    using assms by simp
  show ?thesis
    using accumulation_cycle [of pre gk tv s0 opt lrk] assms
      accumulation_cycle [of pre gk fst "(tv s0, [])" "\<lambda>lr g (vs, calls). Inr (vs, calls @ [(lr, g)])" lrk] a
    by simp
qed

theorem accumulation_equivalence_witness:
  "wrapper_calls (\<lambda>p. p) (\<lambda>lr g p. Inr (map2 (map2 (\<lambda>x y. x - lr * y)) p g))
     [(1, [[2, 4]], False), (1 / 2, [[4, 8]], True)]
     (GradientAccumulationOptimizerWrapper_init (\<lambda>p. p) [[1, 1]] (1 / 2))
   = Inr \<lparr>scaler = 1 / 2, optimizer = [[- 1 / 2, - 2]], accum = [[0, 0]]\<rparr>
   \<and> mean_of_gradients [[[2, 4]], [[4, 8]]] = [[3, 6]]"
proof -
  have m: "mean_of_gradients [[[2, 4]], [[4, 8]]] = [[3, 6]]"
    by (simp add: mean_of_gradients_def upt_rec)
  have h: "\<forall>g\<in>set (map snd [(1::real, [[2, 4]])] @ [[[4, 8]]]). aligned g ((\<lambda>p. p) [[1, 1]])"
    by (simp add: aligned_def)
  show ?thesis
    using accumulation_equivalence [of "[(1, [[2, 4]])]" "[[4, 8]]" "\<lambda>p. p" "[[1, 1]]"
        "\<lambda>lr g p. Inr (map2 (map2 (\<lambda>x y. x - lr * y)) p g)" "1 / 2"] h m
    by (simp add: zeros_like_def)
qed

section \<open>C4: the SGLD update\<close>

lemma key_after_Suc: "key_after J (Suc i) r = key_after J i (fst (random_split J r))"
  by (simp only: key_after_def funpow_Suc_right o_apply)

lemma subkey_at_Suc: "subkey_at J (Suc i) r = subkey_at J i (fst (random_split J r))"
  by (simp add: subkey_at_def key_after_Suc)

lemma sgld_head:
  assumes "length g = length p" and "length n = length p"
  shows "and_then (elementwise (+) (scalar_times (1281167 * step_size) g)
                     (times_scalar n (sqrt (2 * step_size)))) (\<lambda>d. elementwise (-) p d)
         = Inr (langevin_step step_size p g n)"
proof -
  have "map2 (-) p (map2 (+) (map (\<lambda>x. 1281167 * step_size * x) g)
                              (map (\<lambda>x. x * sqrt (2 * step_size)) n))
        = langevin_step step_size p g n"
    using assms by (intro nth_equalityI) (simp_all add: langevin_step_def)
  then show ?thesis
    using assms by (simp add: elementwise_def scalar_times_def times_scalar_def)
qed

lemma CustomSGLD_loop_aligned:
  "\<forall>k n. length (random_normal J k n) = n \<Longrightarrow> 0 \<le> step_size \<Longrightarrow> aligned gs ps \<Longrightarrow>
     CustomSGLD_loop J step_size gs ps r =
       Inr (map (\<lambda>i. langevin_step step_size (ps ! i) (gs ! i)
                       (random_normal J (subkey_at J i r) (length (ps ! i))))
                [0..<length ps],
            key_after J (length ps) r)"
proof (induction J step_size gs ps r rule: CustomSGLD_loop.induct)
  case (1 J step_size ps r)
  then show ?case by (simp add: aligned_Nil key_after_def)
next
  case (2 J step_size g gs r)
  then show ?case by (simp add: aligned_Nil)
next
  case (3 J step_size g gs p ps r)
  obtain new_key subkey where sp: "random_split J r = (new_key, subkey)"
    by (cases "random_split J r")
  let ?noise = "random_normal J subkey (length p)"
  have len: "length g = length p" and rest: "aligned gs ps"
    using "3.prems" by (simp_all add: aligned_Cons)
  have nl: "length ?noise = length p" using "3.prems"(1) by simp
  have root: "jn_sqrt_scalar (2 * step_size) = Inr (sqrt (2 * step_size))"
    using "3.prems"(2) by (simp add: jn_sqrt_scalar_def)
  have head: "and_then (elementwise (+) (scalar_times (1281167 * step_size) g)
                     (times_scalar ?noise (sqrt (2 * step_size)))) (\<lambda>d. elementwise (-) p d)
         = Inr (langevin_step step_size p g ?noise)"
    using sgld_head [OF len nl] .
  obtain d where d: "elementwise (+) (scalar_times (1281167 * step_size) g)
                     (times_scalar ?noise (sqrt (2 * step_size))) = Inr d"
    using len nl by (simp add: elementwise_def scalar_times_def times_scalar_def)
  have pd: "elementwise (-) p d = Inr (langevin_step step_size p g ?noise)"
    using head d by simp
  have IH: "CustomSGLD_loop J step_size gs ps new_key =
       Inr (map (\<lambda>i. langevin_step step_size (ps ! i) (gs ! i)
                       (random_normal J (subkey_at J i new_key) (length (ps ! i))))
                [0..<length ps],
            key_after J (length ps) new_key)"
    using "3.IH" [OF refl sp [symmetric] refl "3.prems"(1,2) rest] .
  have sk: "subkey_at J 0 r = subkey" "\<And>i. subkey_at J (Suc i) r = subkey_at J i new_key"
    using sp by (simp_all add: subkey_at_Suc) (simp add: subkey_at_def key_after_def)
  have ka: "key_after J (Suc (length ps)) r = key_after J (length ps) new_key"
    using sp by (simp add: key_after_Suc)
  have upt: "[0..<length (p # ps)] = 0 # map Suc [0..<length ps]"
    by (simp add: upt_conv_Cons map_Suc_upt del: upt_Suc)
  have idx: "map (\<lambda>i. langevin_step step_size ((p # ps) ! i) ((g # gs) ! i)
                       (random_normal J (subkey_at J i r) (length ((p # ps) ! i))))
                [0..<length (p # ps)]
           = langevin_step step_size p g ?noise
             # map (\<lambda>i. langevin_step step_size (ps ! i) (gs ! i)
                       (random_normal J (subkey_at J i new_key) (length (ps ! i))))
                [0..<length ps]"
    unfolding upt by (simp add: sk comp_def del: upt_Suc)
  show ?case
    unfolding idx using sp root d pd IH ka by simp
qed

lemma CustomSGLD_loop_negative:
  "step_size < 0 \<Longrightarrow> gs \<noteq> [] \<Longrightarrow> ps \<noteq> [] \<Longrightarrow>
   CustomSGLD_loop J step_size gs ps r = Inl NonFinite"
  by (cases gs; cases ps) (simp_all add: jn_sqrt_scalar_def split: prod.splits)

lemma CustomSGLD_call_aligned:
  assumes "\<forall>k n. length (random_normal J k n) = n" and "0 \<le> step_size"
    and "aligned grads (train_vars self)"
  shows "CustomSGLD_call J step_size grads self =
     Inr (self\<lparr>train_vars :=
                 map (\<lambda>i. langevin_step step_size (train_vars self ! i) (grads ! i)
                         (random_normal J (subkey_at J i (rng self)) (length (train_vars self ! i))))
                     [0..<length (train_vars self)],
               rng := key_after J (length (train_vars self)) (rng self)\<rparr>)"
  using CustomSGLD_loop_aligned [of J step_size grads "train_vars self" "rng self"] assms
    aligned_length [OF assms(3)]
  by (simp add: CustomSGLD_call_def)

text \<open>
  Claim C4. For a step size \<open>s \<ge> 0\<close> and gradients aligned with the \<open>n\<close> trainable
  variables, a call of the SGLD optimizer replaces each variable \<open>p_i\<close> by
  \<open>p_i - (1281167 * s * g_i + n_i * sqrt (2 * s))\<close>, where \<open>n_i\<close> is the array of the
  shape of \<open>p_i\<close> drawn from the subkey of the \<open>i\<close>-th split of the stream (counted from
  0), and leaves the stream at the key reached after exactly \<open>n\<close> splits: one draw and one
  advance per variable, in the order of the variables. \<open>random_normal\<close> is assumed to
  return an array of the shape it is asked for. The constant \<open>1281167\<close> is the one written
  in the source. For a negative step size the square root is a NaN, in the source as in
  the formula, and the call on at least one variable has no real result.
\<close>

theorem sgld_update:
  assumes "\<forall>k n. length (random_normal J k n) = n"
    and "aligned grads (train_vars self)"
  shows "(0 \<le> step_size \<longrightarrow>
           CustomSGLD_call J step_size grads self =
             Inr (self\<lparr>train_vars :=
                   map (\<lambda>i. langevin_step step_size (train_vars self ! i) (grads ! i)
                           (random_normal J (subkey_at J i (rng self)) (length (train_vars self ! i))))
                       [0..<length (train_vars self)],
                 rng := key_after J (length (train_vars self)) (rng self)\<rparr>))
       \<and> (step_size < 0 \<longrightarrow> train_vars self \<noteq> [] \<longrightarrow>
           CustomSGLD_call J step_size grads self = Inl NonFinite)"
proof -
  have n: "length grads = length (train_vars self)"
    using assms(2) by (rule aligned_length)
  have neg: "step_size < 0 \<longrightarrow> train_vars self \<noteq> [] \<longrightarrow>
           CustomSGLD_call J step_size grads self = Inl NonFinite"
  proof (intro impI)
    assume s: "step_size < 0" and p: "train_vars self \<noteq> []"
    then have "grads \<noteq> []" using n by auto
    then show "CustomSGLD_call J step_size grads self = Inl NonFinite"
      using CustomSGLD_loop_negative [OF s _ p, of grads J "rng self"] n
      by (simp add: CustomSGLD_call_def)
  qed
  show ?thesis
    using CustomSGLD_call_aligned [OF assms(1) _ assms(2), of step_size] neg by blast
qed

theorem sgld_update_witness:
  "CustomSGLD_call toy_env 2 [[1, 0], [0]] \<lparr>train_vars = [[1, 2], [3]], rng = 42\<rparr>
     = Inr \<lparr>train_vars = [[- 2562503, - 168], [- 335]], rng = 168\<rparr>
   \<and> CustomSGLD_call toy_env (- 2) [[1, 0], [0]] \<lparr>train_vars = [[1, 2], [3]], rng = 42\<rparr>
     = Inl NonFinite"
proof -
  have h1: "\<forall>k n. length (random_normal toy_env k n) = n"
    by (simp add: toy_env_def)
  have h2: "aligned [[1, 0], [0]] (train_vars \<lparr>train_vars = [[1, 2], [3]], rng = 42::nat\<rparr>)"
    by (simp add: aligned_def)
  have s: "sqrt 4 = 2" by simp
  show ?thesis
    using sgld_update [of toy_env "[[1, 0], [0]]" "\<lparr>train_vars = [[1, 2], [3]], rng = 42\<rparr>" 2] h1 h2
      sgld_update [of toy_env "[[1, 0], [0]]" "\<lparr>train_vars = [[1, 2], [3]], rng = 42\<rparr>" "- 2"]
    by (simp add: toy_env_def langevin_step_def subkey_at_def key_after_def upt_rec
        numeral_2_eq_2 s)
qed
section \<open>C2: the preconditioner of the first update\<close>

lemma momentum_update_aligned:
  "length g = length m \<Longrightarrow> momentum_update a m g = Inr (moving_average a m g)"
proof -
  assume l: "length g = length m"
  have "map2 (+) (map (\<lambda>x. a * x) m) (map (\<lambda>x. (1 - a) * x) (map (\<lambda>x. x * x) g))
        = moving_average a m g"
    using l by (intro nth_equalityI) (simp_all add: moving_average_def)
  then show ?thesis
    using l by (simp add: momentum_update_def elementwise_def scalar_times_def)
qed

lemma moving_average_nonneg:
  assumes "0 \<le> a" and "a \<le> 1" and "\<forall>x\<in>set m. 0 \<le> x"
  shows "\<forall>x\<in>set (moving_average a m g). 0 \<le> x"
proof
  fix x assume "x \<in> set (moving_average a m g)"
  then obtain e where e: "e < length m" and x: "x = a * m ! e + (1 - a) * (g ! e * g ! e)"
    by (auto simp: moving_average_def)
  have "0 \<le> m ! e" using assms(3) e by simp
  then have "0 \<le> a * m ! e" using assms(1) by simp
  moreover have "0 \<le> (1 - a) * (g ! e * g ! e)" using assms(2) by simp
  ultimately show "0 \<le> x" unfolding x by simp
qed

lemma velocity_of_nonneg:
  assumes "\<forall>x\<in>set m. 0 \<le> x" and "0 < l"
  shows "velocity_of l m = Inr (preconditioner l m)"
proof -
  have 1: "jn_sqrt m = Inr (map sqrt m)"
    using assms(1) by (auto simp: jn_sqrt_def)
  have "\<forall>y\<in>set (map (\<lambda>x. x + l) (map sqrt m)). 0 < y"
  proof
    fix y assume "y \<in> set (map (\<lambda>x. x + l) (map sqrt m))"
    then obtain x where x: "x \<in> set m" and y: "y = sqrt x + l" by auto
    have "0 \<le> sqrt x" using assms(1) x by simp
    from this assms(2) show "0 < y" unfolding y by (rule add_nonneg_pos)
  qed
  then have 2: "jn_reciprocal (map (\<lambda>x. x + l) (map sqrt m)) = Inr (preconditioner l m)"
    by (auto simp: jn_reciprocal_def preconditioner_def comp_def)
  show ?thesis unfolding velocity_of_def 1 using 2 by simp
qed

lemma preconditioner_pos:
  assumes "\<forall>x\<in>set m. 0 \<le> x" and "0 < l"
  shows "\<forall>v\<in>set (preconditioner l m). 0 < v"
proof
  fix v assume "v \<in> set (preconditioner l m)"
  then obtain x where x: "x \<in> set m" and v: "v = 1 / (sqrt x + l)"
    by (auto simp: preconditioner_def)
  have "0 \<le> sqrt x" using assms(1) x by simp
  from this assms(2) have "0 < sqrt x + l" by (rule add_nonneg_pos)
  then show "0 < v" unfolding v by (simp only: zero_less_divide_1_iff)
qed

lemma psgld_head:
  assumes "length g = length p" and "length n = length p" and "length v = length p"
    and "0 \<le> step_size" and "\<forall>x\<in>set v. 0 < x"
  shows "and_then (elementwise (*) (times_scalar (scalar_times 1281167 v) step_size) g) (\<lambda>drift.
         and_then (jn_sqrt (scalar_times (2 * step_size) v)) (\<lambda>root.
         and_then (elementwise (*) n root) (\<lambda>diffusion.
         and_then (elementwise (+) drift diffusion) (\<lambda>d. elementwise (-) p d))))
         = Inr (preconditioned_step step_size v p g n)"
proof -
  have "\<forall>x\<in>set (scalar_times (2 * step_size) v). 0 \<le> x"
    using assms(4,5) by (auto simp: scalar_times_def)
  then have root: "jn_sqrt (scalar_times (2 * step_size) v)
                   = Inr (map sqrt (map (\<lambda>x. 2 * step_size * x) v))"
    by (auto simp: jn_sqrt_def scalar_times_def)
  have "map2 (-) p (map2 (+) (map2 (*) (map (\<lambda>x. x * step_size) (map (\<lambda>x. 1281167 * x) v)) g)
                              (map2 (*) n (map sqrt (map (\<lambda>x. 2 * step_size * x) v))))
        = preconditioned_step step_size v p g n"
    using assms(1-3) by (intro nth_equalityI) (simp_all add: preconditioned_step_def)
  then show ?thesis
    unfolding root using assms(1-3)
    by (simp add: elementwise_def scalar_times_def times_scalar_def)
qed

lemma CustomPreconditionedSGLD_loop_aligned:
  "\<forall>k n. length (random_normal J k n) = n \<Longrightarrow> 0 \<le> step_size \<Longrightarrow>
   0 \<le> a \<Longrightarrow> a \<le> 1 \<Longrightarrow> 0 < l \<Longrightarrow>
   aligned gs ps \<Longrightarrow> aligned ms ps \<Longrightarrow> \<forall>m\<in>set ms. \<forall>x\<in>set m. 0 \<le> x \<Longrightarrow>
     CustomPreconditionedSGLD_loop J a l step_size gs ps ms r =
       Inr (map (\<lambda>i. preconditioned_step step_size
                       (preconditioner l (moving_average a (ms ! i) (gs ! i))) (ps ! i) (gs ! i)
                       (random_normal J (subkey_at J i r) (length (ps ! i))))
                [0..<length ps],
            map (\<lambda>i. moving_average a (ms ! i) (gs ! i)) [0..<length ps],
            key_after J (length ps) r)"
proof (induction J a l step_size gs ps ms r rule: CustomPreconditionedSGLD_loop.induct)
  case (1 J a l step_size g gs p ps m ms r)
  obtain new_key subkey where sp: "random_split J r = (new_key, subkey)"
    by (cases "random_split J r")
  let ?noise = "random_normal J subkey (length p)"
  let ?m = "moving_average a m g"
  let ?v = "preconditioner l ?m"
  have len: "length g = length p" "length m = length p" and rest: "aligned gs ps" "aligned ms ps"
    using "1.prems" by (simp_all add: aligned_Cons)
  have mpos: "\<forall>x\<in>set m. 0 \<le> x" and mspos: "\<forall>m\<in>set ms. \<forall>x\<in>set m. 0 \<le> x"
    using "1.prems"(8) by simp_all
  have nl: "length ?noise = length p" using "1.prems"(1) by simp
  have vl: "length ?v = length p" using len by (simp add: preconditioner_def moving_average_def)
  have mu: "momentum_update a m g = Inr ?m"
    using len by (simp add: momentum_update_aligned)
  have m'pos: "\<forall>x\<in>set ?m. 0 \<le> x"
    using moving_average_nonneg [OF "1.prems"(3,4) mpos] .
  have ve: "velocity_of l ?m = Inr ?v"
    using velocity_of_nonneg [OF m'pos "1.prems"(5)] .
  have vpos: "\<forall>x\<in>set ?v. 0 < x"
    using preconditioner_pos [OF m'pos "1.prems"(5)] .
  have head: "and_then (elementwise (*) (times_scalar (scalar_times 1281167 ?v) step_size) g) (\<lambda>drift.
         and_then (jn_sqrt (scalar_times (2 * step_size) ?v)) (\<lambda>root.
         and_then (elementwise (*) ?noise root) (\<lambda>diffusion.
         and_then (elementwise (+) drift diffusion) (\<lambda>d. elementwise (-) p d))))
         = Inr (preconditioned_step step_size ?v p g ?noise)"
    using psgld_head [OF len(1) nl vl "1.prems"(2) vpos] .
  have IH: "CustomPreconditionedSGLD_loop J a l step_size gs ps ms new_key =
       Inr (map (\<lambda>i. preconditioned_step step_size
                       (preconditioner l (moving_average a (ms ! i) (gs ! i))) (ps ! i) (gs ! i)
                       (random_normal J (subkey_at J i new_key) (length (ps ! i))))
                [0..<length ps],
            map (\<lambda>i. moving_average a (ms ! i) (gs ! i)) [0..<length ps],
            key_after J (length ps) new_key)"
    using "1.IH" [OF refl sp [symmetric] refl "1.prems"(1-5) rest mspos] .
  have sk: "subkey_at J 0 r = subkey" "\<And>i. subkey_at J (Suc i) r = subkey_at J i new_key"
    using sp by (simp_all add: subkey_at_Suc) (simp add: subkey_at_def key_after_def)
  have ka: "key_after J (Suc (length ps)) r = key_after J (length ps) new_key"
    using sp by (simp add: key_after_Suc)
  have upt: "[0..<length (p # ps)] = 0 # map Suc [0..<length ps]"
    by (simp add: upt_conv_Cons map_Suc_upt del: upt_Suc)
  have step: "CustomPreconditionedSGLD_loop J a l step_size (g # gs) (p # ps) (m # ms) r =
      Inr (preconditioned_step step_size ?v p g ?noise
             # map (\<lambda>i. preconditioned_step step_size
                       (preconditioner l (moving_average a (ms ! i) (gs ! i))) (ps ! i) (gs ! i)
                       (random_normal J (subkey_at J i new_key) (length (ps ! i))))
                [0..<length ps],
           ?m # map (\<lambda>i. moving_average a (ms ! i) (gs ! i)) [0..<length ps],
           key_after J (length ps) new_key)"
  proof -
    obtain drift where 1: "elementwise (*) (times_scalar (scalar_times 1281167 ?v) step_size) g = Inr drift"
      using len vl by (simp add: elementwise_def scalar_times_def times_scalar_def)
    obtain root where 2: "jn_sqrt (scalar_times (2 * step_size) ?v) = Inr root"
      using head 1 by (auto dest!: and_then_Inr)
    obtain diffusion where 3: "elementwise (*) ?noise root = Inr diffusion"
      using head 1 2 by (auto dest!: and_then_Inr)
    obtain d where 4: "elementwise (+) drift diffusion = Inr d"
      using head 1 2 3 by (auto dest!: and_then_Inr)
    have 5: "elementwise (-) p d = Inr (preconditioned_step step_size ?v p g ?noise)"
      using head 1 2 3 4 by simp
    show ?thesis
      using sp mu ve 1 2 3 4 5 IH by simp
  qed
  show ?case
    unfolding step upt using ka by (simp add: sk comp_def del: upt_Suc)
qed (auto simp: aligned_Nil key_after_def)

lemma CustomPreconditionedSGLD_call_aligned:
  assumes "\<forall>k n. length (random_normal J k n) = n" and "0 \<le> step_size"
    and "0 \<le> alpha self" and "alpha self \<le> 1" and "0 < lambda_small self"
    and "aligned grads (train_vars self)" and "aligned (momentum_vars self) (train_vars self)"
    and "\<forall>m\<in>set (momentum_vars self). \<forall>x\<in>set m. 0 \<le> x"
  shows "CustomPreconditionedSGLD_call J step_size grads self =
     Inr (self\<lparr>train_vars :=
            map (\<lambda>i. preconditioned_step step_size
                   (preconditioner (lambda_small self)
                      (moving_average (alpha self) (momentum_vars self ! i) (grads ! i)))
                   (train_vars self ! i) (grads ! i)
                   (random_normal J (subkey_at J i (rng self)) (length (train_vars self ! i))))
                [0..<length (train_vars self)],
          rng := key_after J (length (train_vars self)) (rng self),
          momentum_vars :=
            map (\<lambda>i. moving_average (alpha self) (momentum_vars self ! i) (grads ! i))
                [0..<length (train_vars self)]\<rparr>)"
  using CustomPreconditionedSGLD_loop_aligned [of J step_size "alpha self" "lambda_small self"
      grads "train_vars self" "momentum_vars self" "rng self"] assms aligned_length [OF assms(6)]
  by (simp add: CustomPreconditionedSGLD_call_def)

lemma moving_average_zero:
  "length g = length p \<Longrightarrow>
   moving_average a (zeros_like p) g = map (\<lambda>x. (1 - a) * (x * x)) g"
  by (intro nth_equalityI) (simp_all add: moving_average_def zeros_like_def)

lemma first_denominator_positive: "0 < sqrt ((1 - 95 / 100) * (x * x)) + 1 / 10 ^ 8"
proof -
  have "0 \<le> sqrt ((1 - 95 / 100) * (x * x))" by (rule real_sqrt_ge_zero) simp
  then show ?thesis by (rule add_nonneg_pos) simp
qed

lemma psgld_first_call:
  assumes "\<forall>k n. length (random_normal J k n) = n"
    and "aligned grads (train_var_values vc)"
    and "0 \<le> step_size"
  shows "CustomPreconditionedSGLD_call J step_size grads (CustomPreconditionedSGLD_init J vc) =
     Inr \<lparr>train_vars =
            map (\<lambda>i. preconditioned_step step_size
                        (map (\<lambda>x. 1 / (sqrt ((1 - 95 / 100) * (x * x)) + 1 / 10 ^ 8)) (grads ! i))
                        (train_var_values vc ! i) (grads ! i)
                        (random_normal J (subkey_at J i (random_key J 42))
                           (length (train_var_values vc ! i))))
                [0..<length (train_var_values vc)],
          rng = key_after J (length (train_var_values vc)) (random_key J 42),
          alpha = 95 / 100, lambda_small = 1 / 10 ^ 8,
          momentum_vars = map (map (\<lambda>x. (1 - 95 / 100) * (x * x))) grads\<rparr>"
proof -
  let ?ps = "train_var_values vc"
  let ?ms = "map zeros_like ?ps"
  let ?a = "95 / 100 :: real"
  let ?l = "1 / 10 ^ 8 :: real"
  let ?S = "CustomPreconditionedSGLD_init J vc"
  have S: "train_vars ?S = ?ps" "rng ?S = random_key J 42" "alpha ?S = ?a"
    "lambda_small ?S = ?l" "momentum_vars ?S = ?ms"
    by (simp_all add: CustomPreconditionedSGLD_init_def)
  have n: "length grads = length ?ps" using assms(2) by (rule aligned_length)
  have am: "aligned ?ms ?ps" by (simp add: aligned_def zeros_like_def)
  have mz: "\<forall>m\<in>set ?ms. \<forall>x\<in>set m. 0 \<le> x" by (auto simp: zeros_like_def)
  have ma: "\<And>i. i < length ?ps \<Longrightarrow>
      moving_average ?a (?ms ! i) (grads ! i) = map (\<lambda>x. (1 - ?a) * (x * x)) (grads ! i)"
  proof -
    fix i assume i: "i < length ?ps"
    have "length (grads ! i) = length (?ps ! i)"
      using assms(2) i n unfolding aligned_def by (metis nth_map)
    then show "moving_average ?a (?ms ! i) (grads ! i) = map (\<lambda>x. (1 - ?a) * (x * x)) (grads ! i)"
      using i by (simp add: moving_average_zero)
  qed
  have call: "CustomPreconditionedSGLD_call J step_size grads ?S =
     Inr (?S\<lparr>train_vars :=
            map (\<lambda>i. preconditioned_step step_size
                   (preconditioner ?l (moving_average ?a (?ms ! i) (grads ! i)))
                   (?ps ! i) (grads ! i)
                   (random_normal J (subkey_at J i (random_key J 42)) (length (?ps ! i))))
                [0..<length ?ps],
          rng := key_after J (length ?ps) (random_key J 42),
          momentum_vars :=
            map (\<lambda>i. moving_average ?a (?ms ! i) (grads ! i)) [0..<length ?ps]\<rparr>)"
    using CustomPreconditionedSGLD_call_aligned [of J step_size ?S grads] assms am mz
    unfolding S by simp
  have m': "map (\<lambda>i. moving_average ?a (?ms ! i) (grads ! i)) [0..<length ?ps]
          = map (map (\<lambda>x. (1 - ?a) * (x * x))) grads"
    using n ma by (intro nth_equalityI) simp_all
  have p': "map (\<lambda>i. preconditioned_step step_size
                       (preconditioner ?l (moving_average ?a (?ms ! i) (grads ! i))) (?ps ! i) (grads ! i)
                       (random_normal J (subkey_at J i (random_key J 42)) (length (?ps ! i))))
                [0..<length ?ps]
          = map (\<lambda>i. preconditioned_step step_size
                        (map (\<lambda>x. 1 / (sqrt ((1 - ?a) * (x * x)) + ?l)) (grads ! i))
                        (?ps ! i) (grads ! i)
                        (random_normal J (subkey_at J i (random_key J 42)) (length (?ps ! i))))
                [0..<length ?ps]"
    using ma by (intro nth_equalityI) (simp_all add: preconditioner_def comp_def)
  show ?thesis
    unfolding call m' p' by (simp add: CustomPreconditionedSGLD_init_def)
qed

text \<open>
  Claim C2, as amended. The optimizer is constructed with \<open>m = 0\<close>. Its first call, with
  a step size \<open>s \<ge> 0\<close>, assigns \<open>m \<leftarrow> 0.95 * 0 + (1 - 0.95) * g\<^sup>2\<close> before it computes the
  preconditioner, so the preconditioner of the first update is
  \<open>v = 1 / (sqrt ((1 - 0.95) * g\<^sup>2) + 1e-8)\<close> for every element, the variables become
  \<open>p - (1281167 * v * s * g + n * sqrt (2 * s * v))\<close> and \<open>m\<close> holds \<open>(1 - 0.95) * g\<^sup>2\<close>
  afterwards. The denominator is positive for every gradient, so no division by zero
  occurs.
\<close>

theorem psgld_first_update:
  assumes "\<forall>k n. length (random_normal J k n) = n"
    and "aligned grads (train_var_values vc)"
    and "0 \<le> step_size"
  shows "CustomPreconditionedSGLD_call J step_size grads (CustomPreconditionedSGLD_init J vc) =
     Inr \<lparr>train_vars =
            map (\<lambda>i. preconditioned_step step_size
                        (map (\<lambda>x. 1 / (sqrt ((1 - 95 / 100) * (x * x)) + 1 / 10 ^ 8)) (grads ! i))
                        (train_var_values vc ! i) (grads ! i)
                        (random_normal J (subkey_at J i (random_key J 42))
                           (length (train_var_values vc ! i))))
                [0..<length (train_var_values vc)],
          rng = key_after J (length (train_var_values vc)) (random_key J 42),
          alpha = 95 / 100, lambda_small = 1 / 10 ^ 8,
          momentum_vars = map (map (\<lambda>x. (1 - 95 / 100) * (x * x))) grads\<rparr>
   \<and> (\<forall>g\<in>set grads. \<forall>x\<in>set g. 0 < sqrt ((1 - 95 / 100) * (x * x)) + 1 / 10 ^ 8)"
  using psgld_first_call [of J grads vc step_size] assms first_denominator_positive
  by blast

theorem psgld_first_update_witness:
  "CustomPreconditionedSGLD_call toy_env (1 / 2) [[2]]
      (CustomPreconditionedSGLD_init toy_env [TrainVar [3]])
   = Inr \<lparr>train_vars =
            [[3 - (1281167 * (1 / (sqrt (1 / 5) + 1 / 10 ^ 8)) * (1 / 2) * 2
                   + 85 * sqrt (2 * (1 / 2) * (1 / (sqrt (1 / 5) + 1 / 10 ^ 8))))]],
          rng = 84, alpha = 95 / 100, lambda_small = 1 / 10 ^ 8, momentum_vars = [[1 / 5]]\<rparr>
   \<and> 0 < sqrt ((1 - 95 / 100) * (2 * 2)) + 1 / 10 ^ (8::nat)"
proof -
  have h1: "\<forall>k n. length (random_normal toy_env k n) = n"
    by (simp add: toy_env_def)
  have h2: "aligned [[2]] (train_var_values [TrainVar [3] :: nat variable])"
    by (simp add: aligned_def train_var_values_def)
  have h3: "(0::real) \<le> 1 / 2" by simp
  show ?thesis
    using psgld_first_update [of toy_env "[[2]]" "[TrainVar [3]]" "1 / 2"] h1 h2 h3
    by (simp add: toy_env_def preconditioned_step_def subkey_at_def key_after_def upt_rec
        train_var_values_def)
qed

text \<open>
  Claim C2 as stated fails: with the gradient \<open>1\<close> on one variable of one element, the
  first call leaves \<open>m = 1/20\<close> and uses \<open>v = 1 / (sqrt (1/20) + 1e-8)\<close>, which is not
  \<open>1 / (0 + 1e-8)\<close>.
\<close>

theorem psgld_first_velocity_counterexample:
  "CustomPreconditionedSGLD_call toy_env (1 / 2) [[1]]
      (CustomPreconditionedSGLD_init toy_env [TrainVar [0]])
   = Inr \<lparr>train_vars =
            [[0 - (1281167 * (1 / (sqrt (1 / 20) + 1 / 10 ^ 8)) * (1 / 2) * 1
                   + 85 * sqrt (2 * (1 / 2) * (1 / (sqrt (1 / 20) + 1 / 10 ^ 8))))]],
          rng = 84, alpha = 95 / 100, lambda_small = 1 / 10 ^ 8, momentum_vars = [[1 / 20]]\<rparr>
   \<and> velocity_of (1 / 10 ^ 8) [1 / 20] = Inr [1 / (sqrt (1 / 20) + 1 / 10 ^ 8)]
   \<and> 1 / (sqrt (1 / 20) + 1 / 10 ^ 8) \<noteq> 1 / (0 + 1 / 10 ^ (8::nat))"
proof -
  have pos: "0 < sqrt (1 / 20 :: real)" by simp
  have ne: "1 / (sqrt (1 / 20) + 1 / 10 ^ 8) \<noteq> 1 / (0 + 1 / 10 ^ (8::nat))"
  proof
    assume "1 / (sqrt (1 / 20) + 1 / 10 ^ 8) = 1 / (0 + 1 / 10 ^ (8::nat))"
    then have "sqrt (1 / 20) + 1 / 10 ^ 8 = 0 + 1 / 10 ^ (8::nat)"
      by (simp only: divide_cancel_left) simp
    then show False using pos by simp
  qed
  have h1: "\<forall>k n. length (random_normal toy_env k n) = n"
    by (simp add: toy_env_def)
  have h2: "aligned [[1]] (train_var_values [TrainVar [0] :: nat variable])"
    by (simp add: aligned_def train_var_values_def)
  have call: "CustomPreconditionedSGLD_call toy_env (1 / 2) [[1]]
      (CustomPreconditionedSGLD_init toy_env [TrainVar [0]])
   = Inr \<lparr>train_vars =
            [[0 - (1281167 * (1 / (sqrt (1 / 20) + 1 / 10 ^ 8)) * (1 / 2) * 1
                   + 85 * sqrt (2 * (1 / 2) * (1 / (sqrt (1 / 20) + 1 / 10 ^ 8))))]],
          rng = 84, alpha = 95 / 100, lambda_small = 1 / 10 ^ 8, momentum_vars = [[1 / 20]]\<rparr>"
    using psgld_first_call [of toy_env "[[1]]" "[TrainVar [0]]" "1 / 2"] h1 h2
    by (simp add: toy_env_def preconditioned_step_def subkey_at_def key_after_def upt_rec
        train_var_values_def)
  have vel: "velocity_of (1 / 10 ^ 8) [1 / 20] = Inr [1 / (sqrt (1 / 20) + 1 / 10 ^ 8)]"
    using velocity_of_nonneg [of "[1 / 20]" "1 / 10 ^ 8"]
    by (simp add: preconditioner_def)
  show ?thesis
    using call ne vel by simp
qed
section \<open>The experiment built from the default flags\<close>

lemma lower_resnet18: "lower ''resnet18'' = ''resnet18''"
  by (simp add: lower_def lower_char_def)

lemma make_model_resnet18: "make_model ''resnet18'' n = Inr (ResNet18 3 n)"
  by (simp add: make_model_def lower_resnet18)

lemma default_experiment:
  "Experiment_init toy_env default_flags 0 = Inr toy_experiment"
  by (simp add: Experiment_init_def default_flags_def toy_env_def toy_experiment_def
      construct_logit_clip_fn_def make_model_resnet18 make_optimizer_def wrap_optimizer_def
      train_var_values_def Let_def)

section \<open>C8: the schedule at its boundaries\<close>

lemma learning_rate_fixed:
  "learning_rate (F\<lparr>FLAGS_lr_schedule := ''fixed''\<rparr>) self epoch =
     Inr (map_option (\<lambda>m. base_learning_rate self * m)
           (if min epoch (num_train_epochs self) < lr_warmup_epochs self
            then float_div (min epoch (num_train_epochs self)) (lr_warmup_epochs self)
            else Some 1))"
  by (simp add: learning_rate_def Let_def)

lemma learning_rate_cos:
  "learning_rate (F\<lparr>FLAGS_lr_schedule := ''cos''\<rparr>) self epoch =
     Inr (map_option (\<lambda>m. base_learning_rate self * m)
           (if min epoch (num_train_epochs self) < lr_warmup_epochs self
            then float_div (min epoch (num_train_epochs self)) (lr_warmup_epochs self)
            else map_option (\<lambda>x. 0.5 * (1 + cos x))
                   (float_div (pi * (min epoch (num_train_epochs self) - lr_warmup_epochs self))
                      (num_train_epochs self - lr_warmup_epochs self))))"
  by (simp add: learning_rate_def Let_def)

text \<open>
  Claim C8, as amended. The epoch is clamped to \<open>num_train_epochs\<close> before the schedule
  is evaluated: the rate at any epoch is the rate at the smaller of that epoch and
  \<open>num_train_epochs\<close>. With \<open>warmup_epochs > 0\<close>, for both schedules the rate at epoch 0 is 0
  when \<open>num_train_epochs \<ge> 0\<close>; the rate at \<open>warmup_epochs\<close> is \<open>base_rate\<close> for
  \<open>fixed\<close> when \<open>warmup_epochs \<le> num_train_epochs\<close> and for \<open>cos\<close> when
  \<open>warmup_epochs < num_train_epochs\<close>; and for \<open>cos\<close> the rate at \<open>num_train_epochs\<close> is
  0 when \<open>warmup_epochs < num_train_epochs\<close>. Floats are real numbers here.
\<close>

theorem schedule_boundaries:
  assumes "0 < lr_warmup_epochs self"
  shows "learning_rate F self epoch = learning_rate F self (min epoch (num_train_epochs self))
       \<and> (0 \<le> num_train_epochs self \<longrightarrow>
            learning_rate (F\<lparr>FLAGS_lr_schedule := ''cos''\<rparr>) self 0 = Inr (Some 0)
          \<and> learning_rate (F\<lparr>FLAGS_lr_schedule := ''fixed''\<rparr>) self 0 = Inr (Some 0))
       \<and> (lr_warmup_epochs self \<le> num_train_epochs self \<longrightarrow>
            learning_rate (F\<lparr>FLAGS_lr_schedule := ''fixed''\<rparr>) self (lr_warmup_epochs self)
              = Inr (Some (base_learning_rate self)))
       \<and> (lr_warmup_epochs self < num_train_epochs self \<longrightarrow>
            learning_rate (F\<lparr>FLAGS_lr_schedule := ''cos''\<rparr>) self (lr_warmup_epochs self)
              = Inr (Some (base_learning_rate self))
          \<and> learning_rate (F\<lparr>FLAGS_lr_schedule := ''cos''\<rparr>) self (num_train_epochs self)
              = Inr (Some 0))"
proof -
  have clamp: "learning_rate F self epoch = learning_rate F self (min epoch (num_train_epochs self))"
    by (simp add: learning_rate_def Let_def)
  show ?thesis
    using assms clamp
    by (simp add: learning_rate_fixed learning_rate_cos float_div_def min_def)
qed

theorem schedule_boundaries_witness:
  "learning_rate (default_flags\<lparr>FLAGS_lr_schedule := ''cos''\<rparr>) toy_experiment 0 = Inr (Some 0)
   \<and> learning_rate (default_flags\<lparr>FLAGS_lr_schedule := ''fixed''\<rparr>) toy_experiment 0 = Inr (Some 0)
   \<and> learning_rate (default_flags\<lparr>FLAGS_lr_schedule := ''fixed''\<rparr>) toy_experiment 1 = Inr (Some 1)
   \<and> learning_rate (default_flags\<lparr>FLAGS_lr_schedule := ''cos''\<rparr>) toy_experiment 1 = Inr (Some 1)
   \<and> learning_rate (default_flags\<lparr>FLAGS_lr_schedule := ''cos''\<rparr>) toy_experiment 10 = Inr (Some 0)
   \<and> learning_rate (default_flags\<lparr>FLAGS_lr_schedule := ''cos''\<rparr>) toy_experiment 12 = Inr (Some 0)"
proof -
  have h: "0 < lr_warmup_epochs toy_experiment" by (simp add: toy_experiment_def)
  have v: "lr_warmup_epochs toy_experiment = 1" "num_train_epochs toy_experiment = 10"
    "base_learning_rate toy_experiment = 1"
    by (simp_all add: toy_experiment_def)
  show ?thesis
    using schedule_boundaries [where self = toy_experiment and F = default_flags] h
      schedule_boundaries [where self = toy_experiment
        and F = "default_flags\<lparr>FLAGS_lr_schedule := ''cos''\<rparr>" and epoch = 12] h
    unfolding v by simp
qed

text \<open>
  Claim C8 as stated fails when the run is shorter than the warmup: with the default
  warmup of one epoch, the default base rate and half an epoch of training, the
  \<open>fixed\<close> schedule at \<open>warmup_epochs\<close> gives half the base rate, and the \<open>cos\<close>
  schedule at \<open>num_train_epochs\<close> gives half the base rate and not 0.
\<close>

theorem schedule_boundaries_counterexample:
  "Experiment_init toy_env (default_flags\<lparr>FLAGS_num_train_epochs := 1 / 2\<rparr>) 0
     = Inr (toy_experiment\<lparr>num_train_epochs := 1 / 2\<rparr>)
   \<and> base_learning_rate (toy_experiment\<lparr>num_train_epochs := 1 / 2\<rparr>) = 1
   \<and> lr_warmup_epochs (toy_experiment\<lparr>num_train_epochs := 1 / 2\<rparr>) = 1
   \<and> learning_rate (default_flags\<lparr>FLAGS_num_train_epochs := 1 / 2, FLAGS_lr_schedule := ''fixed''\<rparr>)
        (toy_experiment\<lparr>num_train_epochs := 1 / 2\<rparr>) 1 = Inr (Some (1 / 2))
   \<and> learning_rate (default_flags\<lparr>FLAGS_num_train_epochs := 1 / 2, FLAGS_lr_schedule := ''fixed''\<rparr>)
        (toy_experiment\<lparr>num_train_epochs := 1 / 2\<rparr>)
        (lr_warmup_epochs (toy_experiment\<lparr>num_train_epochs := 1 / 2\<rparr>))
       \<noteq> Inr (Some (base_learning_rate (toy_experiment\<lparr>num_train_epochs := 1 / 2\<rparr>)))
   \<and> learning_rate (default_flags\<lparr>FLAGS_num_train_epochs := 1 / 2, FLAGS_lr_schedule := ''cos''\<rparr>)
        (toy_experiment\<lparr>num_train_epochs := 1 / 2\<rparr>) (1 / 2) = Inr (Some (1 / 2))
   \<and> learning_rate (default_flags\<lparr>FLAGS_num_train_epochs := 1 / 2, FLAGS_lr_schedule := ''cos''\<rparr>)
        (toy_experiment\<lparr>num_train_epochs := 1 / 2\<rparr>)
        (num_train_epochs (toy_experiment\<lparr>num_train_epochs := 1 / 2\<rparr>))
       \<noteq> Inr (Some 0)"
proof -
  have init: "Experiment_init toy_env (default_flags\<lparr>FLAGS_num_train_epochs := 1 / 2\<rparr>) 0
     = Inr (toy_experiment\<lparr>num_train_epochs := 1 / 2\<rparr>)"
    by (simp add: Experiment_init_def default_flags_def toy_env_def toy_experiment_def
      construct_logit_clip_fn_def make_model_resnet18 make_optimizer_def wrap_optimizer_def
      train_var_values_def Let_def)
  show ?thesis
    unfolding init
    by (simp add: learning_rate_fixed learning_rate_cos float_div_def toy_experiment_def)
qed
section \<open>C3: an unsupported schedule name\<close>

lemma Experiment_init_ignores_schedule:
  "Experiment_init J (F\<lparr>FLAGS_lr_schedule := name\<rparr>) seed = Experiment_init J F seed"
  by (simp add: Experiment_init_def cong: if_cong)

lemma learning_rate_unsupported:
  "name \<noteq> ''cos'' \<Longrightarrow> name \<noteq> ''fixed'' \<Longrightarrow>
   learning_rate (F\<lparr>FLAGS_lr_schedule := name\<rparr>) self epoch =
     Inl (ValueError (''Unsupported LR schedule: '' @ name))"
  by (simp add: learning_rate_def Let_def)

text \<open>
  Claim C3, as amended. The constructor of the experiment does not look at the schedule
  name: for every name it does exactly what it does for any other name, so an
  unsupported name is not reported at construction time. For every name other than
  \<open>cos\<close> and \<open>fixed\<close> the learning-rate function is reached with that name and raises
  \<open>ValueError\<close> on every call, whatever the epoch: the failure occurs at the first rate
  computation.
\<close>

theorem unsupported_schedule_fails_at_first_use:
  assumes "name \<noteq> ''cos''" and "name \<noteq> ''fixed''"
  shows "Experiment_init J (F\<lparr>FLAGS_lr_schedule := name\<rparr>) seed
           = Experiment_init J (F\<lparr>FLAGS_lr_schedule := other\<rparr>) seed
       \<and> learning_rate (F\<lparr>FLAGS_lr_schedule := name\<rparr>) self epoch
           = Inl (ValueError (''Unsupported LR schedule: '' @ name))"
  using assms
  by (simp add: Experiment_init_ignores_schedule learning_rate_unsupported)

theorem unsupported_schedule_fails_at_first_use_witness:
  "Experiment_init toy_env (default_flags\<lparr>FLAGS_lr_schedule := ''linear''\<rparr>) 0
     = Experiment_init toy_env (default_flags\<lparr>FLAGS_lr_schedule := ''cos''\<rparr>) 0
   \<and> learning_rate (default_flags\<lparr>FLAGS_lr_schedule := ''linear''\<rparr>) toy_experiment 3
     = Inl (ValueError ''Unsupported LR schedule: linear'')"
proof -
  have h: "''linear'' \<noteq> ''cos''" "''linear'' \<noteq> ''fixed''" by simp_all
  show ?thesis
    using unsupported_schedule_fails_at_first_use
      [of "''linear''" toy_env default_flags 0 "''cos''" toy_experiment 3] h
    by simp
qed

text \<open>
  Claim C3 as stated fails: with the schedule name \<open>linear\<close> and every other flag at its
  default, the construction succeeds, and the error is raised when the learning rate is
  computed.
\<close>

theorem unsupported_schedule_counterexample:
  "Experiment_init toy_env (default_flags\<lparr>FLAGS_lr_schedule := ''linear''\<rparr>) 0 = Inr toy_experiment
   \<and> learning_rate (default_flags\<lparr>FLAGS_lr_schedule := ''linear''\<rparr>) toy_experiment 0
     = Inl (ValueError ''Unsupported LR schedule: linear'')"
  using default_experiment
  by (simp add: Experiment_init_ignores_schedule learning_rate_unsupported)

section \<open>C10: the noise of the samplers does not depend on the seed\<close>

lemma key_after_add: "key_after J a (key_after J b r) = key_after J (a + b) r"
  by (simp add: key_after_def funpow_add)

lemma subkey_at_key_after: "subkey_at J i (key_after J b r) = subkey_at J (b + i) r"
  by (simp add: subkey_at_def key_after_add add.commute)

lemma elementwise_Inr:
  "elementwise f a b = Inr c \<Longrightarrow> length a = length b \<and> length c = length a"
  by (auto simp: elementwise_def split: if_splits)

lemma CustomSGLD_loop_Inr:
  "\<forall>k n. length (random_normal J k n) = n \<Longrightarrow>
   CustomSGLD_loop J step_size gs ps r = Inr (ps', r') \<Longrightarrow> length gs = length ps \<Longrightarrow>
   r' = key_after J (length ps) r \<and> map length ps' = map length ps"
proof (induction J step_size gs ps r arbitrary: ps' r' rule: CustomSGLD_loop.induct)
  case (1 J step_size ps r)
  then show ?case by (simp add: key_after_def)
next
  case (2 J step_size g gs r)
  then show ?case by simp
next
  case (3 J step_size g gs p ps r)
  obtain new_key subkey where sp: "random_split J r = (new_key, subkey)"
    by (cases "random_split J r")
  from "3.prems"(2) sp obtain root d p' qs q where
    d: "elementwise (+) (scalar_times (1281167 * step_size) g)
          (times_scalar (random_normal J subkey (length p)) root) = Inr d"
    and p': "elementwise (-) p d = Inr p'"
    and rec: "CustomSGLD_loop J step_size gs ps new_key = Inr (qs, q)"
    and res: "ps' = p' # qs" "r' = q"
    by (auto dest!: and_then_Inr)
  have "q = key_after J (length ps) new_key \<and> map length qs = map length ps"
    using "3.IH" [OF refl sp [symmetric] refl "3.prems"(1) rec] "3.prems"(3) by simp
  moreover have "length p' = length p" using elementwise_Inr [OF p'] by simp
  moreover have "key_after J (Suc (length ps)) r = key_after J (length ps) new_key"
    using sp by (simp add: key_after_Suc)
  ultimately show ?case using res by simp
qed

lemma CustomSGLD_call_Inr:
  assumes "\<forall>k n. length (random_normal J k n) = n"
    and "CustomSGLD_call J step_size grads self = Inr self'"
  shows "rng self' = key_after J (length (train_vars self)) (rng self)"
    and "map length (train_vars self') = map length (train_vars self)"
proof -
  from assms(2) obtain ps r where
    n: "length grads = length (train_vars self)"
    and l: "CustomSGLD_loop J step_size grads (train_vars self) (rng self) = Inr (ps, r)"
    and s: "self' = self\<lparr>train_vars := ps, rng := r\<rparr>"
    by (auto simp: CustomSGLD_call_def split: if_splits dest!: and_then_Inr)
  show "rng self' = key_after J (length (train_vars self)) (rng self)"
    and "map length (train_vars self') = map length (train_vars self)"
    using CustomSGLD_loop_Inr [OF assms(1) l n] s by simp_all
qed

lemma CustomSGLD_calls_Inr:
  "\<forall>k n. length (random_normal J k n) = n \<Longrightarrow> CustomSGLD_calls J cs self = Inr self' \<Longrightarrow>
   rng self' = key_after J (length cs * length (train_vars self)) (rng self)
   \<and> map length (train_vars self') = map length (train_vars self)"
proof (induction cs arbitrary: self)
  case Nil
  then show ?case by (simp add: key_after_def)
next
  case (Cons c cs)
  obtain step_size grads where c: "c = (step_size, grads)" by (cases c)
  from Cons.prems(2) c obtain mid where
    1: "CustomSGLD_call J step_size grads self = Inr mid"
    and 2: "CustomSGLD_calls J cs mid = Inr self'"
    by (auto dest!: and_then_Inr)
  note m = CustomSGLD_call_Inr [OF Cons.prems(1) 1]
  have n: "length (train_vars mid) = length (train_vars self)"
    using m(2) by (metis length_map)
  show ?case
    using Cons.IH [OF Cons.prems(1) 2] m n by (simp add: key_after_add add.commute)
qed

lemma sgld_call_number:
  assumes normal: "\<forall>k n. length (random_normal J k n) = n"
    and start: "rng self = random_key J 42"
    and calls: "CustomSGLD_calls J cs self = Inr self'"
    and step: "0 \<le> step_size"
    and al: "aligned grads (train_vars self')"
  shows "CustomSGLD_call J step_size grads self' = Inr (sgld_result J (length cs) step_size grads self')"
proof -
  note c = CustomSGLD_calls_Inr [OF normal calls]
  have n: "length (train_vars self') = length (train_vars self)"
    using c by (metis length_map)
  have r: "rng self' = key_after J (length cs * length (train_vars self')) (random_key J 42)"
    using c start n by simp
  show ?thesis
    unfolding CustomSGLD_call_aligned [OF normal step al] sgld_result_def noise_of_draw_def r
    by (simp add: subkey_at_key_after key_after_add add.commute)
qed

lemma momentum_update_Inr:
  "momentum_update a m g = Inr m' \<Longrightarrow> length g = length m \<and> m' = moving_average a m g"
proof -
  assume h: "momentum_update a m g = Inr m'"
  then have l: "length g = length m"
    by (auto simp: momentum_update_def scalar_times_def dest!: elementwise_Inr)
  then show ?thesis using h momentum_update_aligned [OF l, of a] by simp
qed

lemma CustomPreconditionedSGLD_loop_Inr:
  "\<forall>k n. length (random_normal J k n) = n \<Longrightarrow>
   CustomPreconditionedSGLD_loop J a l step_size gs ps ms r = Inr (ps', ms', r') \<Longrightarrow>
   length gs = length ps \<Longrightarrow> length ms = length ps \<Longrightarrow> 0 \<le> a \<Longrightarrow> a \<le> 1 \<Longrightarrow>
   \<forall>m\<in>set ms. \<forall>x\<in>set m. 0 \<le> x \<Longrightarrow>
   r' = key_after J (length ps) r \<and> map length ps' = map length ps
   \<and> map length ms' = map length ms \<and> (\<forall>m\<in>set ms'. \<forall>x\<in>set m. 0 \<le> x)"
proof (induction J a l step_size gs ps ms r arbitrary: ps' ms' r'
    rule: CustomPreconditionedSGLD_loop.induct)
  case (1 J a l step_size g gs p ps m ms r)
  obtain new_key subkey where sp: "random_split J r = (new_key, subkey)"
    by (cases "random_split J r")
  from "1.prems"(2) sp obtain m' d p' qs ns q where
    mu: "momentum_update a m g = Inr m'"
    and p': "elementwise (-) p d = Inr p'"
    and rec: "CustomPreconditionedSGLD_loop J a l step_size gs ps ms new_key = Inr (qs, ns, q)"
    and res: "ps' = p' # qs" "ms' = m' # ns" "r' = q"
    by (auto dest!: and_then_Inr)
  have mpos: "\<forall>x\<in>set m. 0 \<le> x" and mspos: "\<forall>m\<in>set ms. \<forall>x\<in>set m. 0 \<le> x"
    using "1.prems"(7) by simp_all
  have m': "m' = moving_average a m g" using momentum_update_Inr [OF mu] by simp
  have m'pos: "\<forall>x\<in>set m'. 0 \<le> x"
    unfolding m' using moving_average_nonneg [OF "1.prems"(5,6) mpos] .
  have m'len: "length m' = length m" unfolding m' by (simp add: moving_average_def)
  have "q = key_after J (length ps) new_key \<and> map length qs = map length ps
      \<and> map length ns = map length ms \<and> (\<forall>m\<in>set ns. \<forall>x\<in>set m. 0 \<le> x)"
    using "1.IH" [OF refl sp [symmetric] refl "1.prems"(1) rec _ _ "1.prems"(5,6) mspos]
      "1.prems"(3,4) by simp
  moreover have "length p' = length p" using elementwise_Inr [OF p'] by simp
  moreover have "key_after J (Suc (length ps)) r = key_after J (length ps) new_key"
    using sp by (simp add: key_after_Suc)
  ultimately show ?case using res m'pos m'len by simp
qed (auto simp: key_after_def)

text \<open>The state of a preconditioned sampler as its constructor and its calls leave it.\<close>

lemma CustomPreconditionedSGLD_call_Inr:
  assumes "\<forall>k n. length (random_normal J k n) = n"
    and "CustomPreconditionedSGLD_call J step_size grads self = Inr self'"
    and "alpha self = 95 / 100" and "lambda_small self = 1 / 10 ^ 8"
    and "aligned (momentum_vars self) (train_vars self)"
    and "\<forall>m\<in>set (momentum_vars self). \<forall>x\<in>set m. 0 \<le> x"
  shows "rng self' = key_after J (length (train_vars self)) (rng self)"
    and "map length (train_vars self') = map length (train_vars self)"
    and "alpha self' = 95 / 100" and "lambda_small self' = 1 / 10 ^ 8"
    and "aligned (momentum_vars self') (train_vars self')"
    and "\<forall>m\<in>set (momentum_vars self'). \<forall>x\<in>set m. 0 \<le> x"
proof -
  from assms(2) obtain ps ms r where
    n: "length grads = length (train_vars self)"
    and l: "CustomPreconditionedSGLD_loop J (alpha self) (lambda_small self) step_size grads
              (train_vars self) (momentum_vars self) (rng self) = Inr (ps, ms, r)"
    and s: "self' = self\<lparr>train_vars := ps, rng := r, momentum_vars := ms\<rparr>"
    by (auto simp: CustomPreconditionedSGLD_call_def split: if_splits dest!: and_then_Inr)
  have lm: "length (momentum_vars self) = length (train_vars self)"
    using assms(5) by (rule aligned_length)
  have a: "0 \<le> alpha self" "alpha self \<le> 1" using assms(3) by simp_all
  note f = CustomPreconditionedSGLD_loop_Inr [OF assms(1) l n lm a assms(6)]
  show "rng self' = key_after J (length (train_vars self)) (rng self)"
    and "map length (train_vars self') = map length (train_vars self)"
    and "alpha self' = 95 / 100" and "lambda_small self' = 1 / 10 ^ 8"
    and "aligned (momentum_vars self') (train_vars self')"
    and "\<forall>m\<in>set (momentum_vars self'). \<forall>x\<in>set m. 0 \<le> x"
    using f s assms(3,4,5) by (simp_all add: aligned_def)
qed

lemma CustomPreconditionedSGLD_calls_Inr:
  "\<forall>k n. length (random_normal J k n) = n \<Longrightarrow>
   CustomPreconditionedSGLD_calls J cs self = Inr self' \<Longrightarrow>
   alpha self = 95 / 100 \<Longrightarrow> lambda_small self = 1 / 10 ^ 8 \<Longrightarrow>
   aligned (momentum_vars self) (train_vars self) \<Longrightarrow>
   \<forall>m\<in>set (momentum_vars self). \<forall>x\<in>set m. 0 \<le> x \<Longrightarrow>
   rng self' = key_after J (length cs * length (train_vars self)) (rng self)
   \<and> map length (train_vars self') = map length (train_vars self)
   \<and> alpha self' = 95 / 100 \<and> lambda_small self' = 1 / 10 ^ 8
   \<and> aligned (momentum_vars self') (train_vars self')
   \<and> (\<forall>m\<in>set (momentum_vars self'). \<forall>x\<in>set m. 0 \<le> x)"
proof (induction cs arbitrary: self)
  case Nil
  then show ?case by (simp add: key_after_def)
next
  case (Cons c cs)
  obtain step_size grads where c: "c = (step_size, grads)" by (cases c)
  from Cons.prems(2) c obtain mid where
    1: "CustomPreconditionedSGLD_call J step_size grads self = Inr mid"
    and 2: "CustomPreconditionedSGLD_calls J cs mid = Inr self'"
    by (auto dest!: and_then_Inr)
  note m = CustomPreconditionedSGLD_call_Inr [OF Cons.prems(1) 1 Cons.prems(3-6)]
  have n: "length (train_vars mid) = length (train_vars self)"
    using m(2) by (metis length_map)
  show ?case
    using Cons.IH [OF Cons.prems(1) 2 m(3-6)] m(1,2) n by (simp add: key_after_add add.commute)
qed

lemma psgld_call_number:
  assumes normal: "\<forall>k n. length (random_normal J k n) = n"
    and start: "self = CustomPreconditionedSGLD_init J vc"
    and calls: "CustomPreconditionedSGLD_calls J cs self = Inr self'"
    and step: "0 \<le> step_size"
    and al: "aligned grads (train_vars self')"
  shows "CustomPreconditionedSGLD_call J step_size grads self'
           = Inr (psgld_result J (length cs) step_size grads self')"
proof -
  have i: "alpha self = 95 / 100" "lambda_small self = 1 / 10 ^ 8"
    "aligned (momentum_vars self) (train_vars self)"
    "\<forall>m\<in>set (momentum_vars self). \<forall>x\<in>set m. 0 \<le> x" "rng self = random_key J 42"
    unfolding start
    by (auto simp: CustomPreconditionedSGLD_init_def aligned_def zeros_like_def)
  note c = CustomPreconditionedSGLD_calls_Inr [OF normal calls i(1-4)]
  have n: "length (train_vars self') = length (train_vars self)"
    using c by (metis length_map)
  have r: "rng self' = key_after J (length cs * length (train_vars self')) (random_key J 42)"
    using c i(5) n by simp
  have a: "0 \<le> alpha self'" "alpha self' \<le> 1" "0 < lambda_small self'"
    using c by simp_all
  have inv: "aligned (momentum_vars self') (train_vars self')"
    "\<forall>m\<in>set (momentum_vars self'). \<forall>x\<in>set m. 0 \<le> x"
    using c by simp_all
  show ?thesis
    unfolding CustomPreconditionedSGLD_call_aligned [OF normal step a al inv]
      psgld_result_def noise_of_draw_def r
    by (simp add: subkey_at_key_after key_after_add add.commute)
qed

lemma Experiment_init_optimizer:
  assumes "Experiment_init J F seed = Inr E"
  shows "\<exists>b. make_optimizer J (FLAGS_optimizer F) (trainable_vars E) = Inr b
           \<and> wrap_optimizer (FLAGS_grad_acc_steps F) b = Inr (experiment_optimizer E)"
  using assms unfolding Experiment_init_def Let_def
  by (auto dest!: and_then_Inr)

lemma wrap_optimizer_sampler:
  "wrap_optimizer k b = Inr opt \<Longrightarrow> sampler_of opt = b"
  by (auto simp: wrap_optimizer_def GradientAccumulationOptimizerWrapper_init_def
      split: if_splits)

lemma make_optimizer_sampler:
  assumes "make_optimizer J name vc = Inr b"
  shows "b = SGLD sg \<Longrightarrow> sg = CustomSGLD_init J vc"
    and "b = PSGLD q \<Longrightarrow> q = CustomPreconditionedSGLD_init J vc"
  using assms by (auto simp: make_optimizer_def split: if_splits)

lemma main_sampler:
  assumes "main J F urandom = Inr E"
  shows "sampler_of (experiment_optimizer E) = SGLD sg \<Longrightarrow> sg = CustomSGLD_init J (trainable_vars E)"
    and "sampler_of (experiment_optimizer E) = PSGLD q \<Longrightarrow>
         q = CustomPreconditionedSGLD_init J (trainable_vars E)"
proof -
  from assms obtain seed where "Experiment_init J F seed = Inr E"
    by (auto simp: main_def Let_def)
  from Experiment_init_optimizer [OF this] obtain b where
    b: "make_optimizer J (FLAGS_optimizer F) (trainable_vars E) = Inr b"
    and w: "wrap_optimizer (FLAGS_grad_acc_steps F) b = Inr (experiment_optimizer E)"
    by auto
  have s: "sampler_of (experiment_optimizer E) = b" using wrap_optimizer_sampler [OF w] .
  show "sampler_of (experiment_optimizer E) = SGLD sg \<Longrightarrow> sg = CustomSGLD_init J (trainable_vars E)"
    using make_optimizer_sampler(1) [OF b] s by simp
  show "sampler_of (experiment_optimizer E) = PSGLD q \<Longrightarrow>
         q = CustomPreconditionedSGLD_init J (trainable_vars E)"
    using make_optimizer_sampler(2) [OF b] s by simp
qed

lemma sgld_run:
  assumes "\<forall>k n. length (random_normal J k n) = n"
    and "main J F urandom = Inr E"
    and "sampler_of (experiment_optimizer E) = SGLD sg"
    and "CustomSGLD_calls J cs sg = Inr sg'"
    and "0 \<le> step_size" and "aligned grads (train_vars sg')"
  shows "rng sg = random_key J 42"
    and "CustomSGLD_call J step_size grads sg' = Inr (sgld_result J (length cs) step_size grads sg')"
    and "map length (train_vars sg') = map length (train_var_values (trainable_vars E))"
proof -
  have sg: "sg = CustomSGLD_init J (trainable_vars E)"
    using main_sampler(1) [OF assms(2,3)] .
  show r: "rng sg = random_key J 42" unfolding sg by (simp add: CustomSGLD_init_def)
  show "CustomSGLD_call J step_size grads sg' = Inr (sgld_result J (length cs) step_size grads sg')"
    using sgld_call_number [OF assms(1) r assms(4,5,6)] .
  show "map length (train_vars sg') = map length (train_var_values (trainable_vars E))"
    using CustomSGLD_calls_Inr [OF assms(1,4)] unfolding sg by (simp add: CustomSGLD_init_def)
qed

lemma psgld_run:
  assumes "\<forall>k n. length (random_normal J k n) = n"
    and "main J F urandom = Inr E"
    and "sampler_of (experiment_optimizer E) = PSGLD q"
    and "CustomPreconditionedSGLD_calls J cs q = Inr q'"
    and "0 \<le> step_size" and "aligned grads (train_vars q')"
  shows "rng q = random_key J 42"
    and "CustomPreconditionedSGLD_call J step_size grads q'
           = Inr (psgld_result J (length cs) step_size grads q')"
    and "map length (train_vars q') = map length (train_var_values (trainable_vars E))"
proof -
  have q: "q = CustomPreconditionedSGLD_init J (trainable_vars E)"
    using main_sampler(2) [OF assms(2,3)] .
  have i: "alpha q = 95 / 100" "lambda_small q = 1 / 10 ^ 8"
    "aligned (momentum_vars q) (train_vars q)"
    "\<forall>m\<in>set (momentum_vars q). \<forall>x\<in>set m. 0 \<le> x"
    unfolding q by (auto simp: CustomPreconditionedSGLD_init_def aligned_def zeros_like_def)
  show "rng q = random_key J 42" unfolding q by (simp add: CustomPreconditionedSGLD_init_def)
  show "CustomPreconditionedSGLD_call J step_size grads q'
           = Inr (psgld_result J (length cs) step_size grads q')"
    using psgld_call_number [OF assms(1) q assms(4,5,6)] .
  show "map length (train_vars q') = map length (train_var_values (trainable_vars E))"
    using CustomPreconditionedSGLD_calls_Inr [OF assms(1,4) i] unfolding q
    by (simp add: CustomPreconditionedSGLD_init_def)
qed

text \<open>
  Claim C10. Take two runs of \<open>main\<close> with the same flags except for the seed flag
  (and with any two values read from the entropy source), both reaching the end of the
  construction with an SGLD optimizer, or both with a preconditioned SGLD optimizer. In
  both runs the key of the optimizer is \<open>jax.random.key(42)\<close> after the construction.
  After any calls that the optimizer has returned from, \<open>c\<close> of them say, the next call
  with a step size \<open>s \<ge> 0\<close> and aligned gradients leaves the state \<open>sgld_result\<close> (or
  \<open>psgld_result\<close>) of call number \<open>c\<close>: for its variable \<open>i\<close> it injects the noise array
  \<open>noise_of_draw (c * n + i)\<close> of the shape of that variable, which depends on no seed,
  and it leaves the key reached after \<open>(c + 1) * n\<close> splits of \<open>key(42)\<close>. So when the two
  runs have made as many calls and their variables have the same shapes, every call draws
  the same noise arrays in both runs, whatever the seeds, the variables and the gradients
  are. \<open>random_normal\<close> is assumed to return an array of the shape it is asked for.
\<close>

theorem sampler_noise_independent_of_seed:
  assumes "\<forall>k n. length (random_normal J k n) = n"
    and "main J (F\<lparr>FLAGS_rnd_seed := seed_a\<rparr>) urandom_a = Inr Ea"
    and "main J (F\<lparr>FLAGS_rnd_seed := seed_b\<rparr>) urandom_b = Inr Eb"
    and "0 \<le> s_a" and "0 \<le> s_b"
  shows "(sampler_of (experiment_optimizer Ea) = SGLD oa \<longrightarrow>
          sampler_of (experiment_optimizer Eb) = SGLD ob \<longrightarrow>
          CustomSGLD_calls J cs_a oa = Inr oa' \<longrightarrow> CustomSGLD_calls J cs_b ob = Inr ob' \<longrightarrow>
          aligned g_a (train_vars oa') \<longrightarrow> aligned g_b (train_vars ob') \<longrightarrow>
            rng oa = random_key J 42 \<and> rng ob = random_key J 42
          \<and> CustomSGLD_call J s_a g_a oa' = Inr (sgld_result J (length cs_a) s_a g_a oa')
          \<and> CustomSGLD_call J s_b g_b ob' = Inr (sgld_result J (length cs_b) s_b g_b ob')
          \<and> (length cs_a = length cs_b \<longrightarrow>
              map length (train_vars oa') = map length (train_vars ob') \<longrightarrow>
                map (\<lambda>i. noise_of_draw J (length cs_a * length (train_vars oa') + i)
                            (length (train_vars oa' ! i))) [0..<length (train_vars oa')]
              = map (\<lambda>i. noise_of_draw J (length cs_b * length (train_vars ob') + i)
                            (length (train_vars ob' ! i))) [0..<length (train_vars ob')]
              \<and> rng (sgld_result J (length cs_a) s_a g_a oa')
                = rng (sgld_result J (length cs_b) s_b g_b ob')))
       \<and> (sampler_of (experiment_optimizer Ea) = PSGLD qa \<longrightarrow>
          sampler_of (experiment_optimizer Eb) = PSGLD qb \<longrightarrow>
          CustomPreconditionedSGLD_calls J ds_a qa = Inr qa' \<longrightarrow>
          CustomPreconditionedSGLD_calls J ds_b qb = Inr qb' \<longrightarrow>
          aligned h_a (train_vars qa') \<longrightarrow> aligned h_b (train_vars qb') \<longrightarrow>
            rng qa = random_key J 42 \<and> rng qb = random_key J 42
          \<and> CustomPreconditionedSGLD_call J s_a h_a qa'
              = Inr (psgld_result J (length ds_a) s_a h_a qa')
          \<and> CustomPreconditionedSGLD_call J s_b h_b qb'
              = Inr (psgld_result J (length ds_b) s_b h_b qb')
          \<and> (length ds_a = length ds_b \<longrightarrow>
              map length (train_vars qa') = map length (train_vars qb') \<longrightarrow>
                map (\<lambda>i. noise_of_draw J (length ds_a * length (train_vars qa') + i)
                            (length (train_vars qa' ! i))) [0..<length (train_vars qa')]
              = map (\<lambda>i. noise_of_draw J (length ds_b * length (train_vars qb') + i)
                            (length (train_vars qb' ! i))) [0..<length (train_vars qb')]
              \<and> rng (psgld_result J (length ds_a) s_a h_a qa')
                = rng (psgld_result J (length ds_b) s_b h_b qb')))"
proof -
  have same: "\<And>(xs::tensor list) (ys::tensor list) c d.
      c = d \<Longrightarrow> map length xs = map length ys \<Longrightarrow>
      map (\<lambda>i. noise_of_draw J (c * length xs + i) (length (xs ! i))) [0..<length xs]
      = map (\<lambda>i. noise_of_draw J (d * length ys + i) (length (ys ! i))) [0..<length ys]"
  proof -
    fix xs ys :: "tensor list" and c d :: nat
    assume cd: "c = d" and sh: "map length xs = map length ys"
    have n: "length xs = length ys" using sh by (metis length_map)
    have "\<And>i. i < length xs \<Longrightarrow> length (xs ! i) = length (ys ! i)"
      using sh n by (metis nth_map)
    then show "map (\<lambda>i. noise_of_draw J (c * length xs + i) (length (xs ! i))) [0..<length xs]
      = map (\<lambda>i. noise_of_draw J (d * length ys + i) (length (ys ! i))) [0..<length ys]"
      using cd n by (intro nth_equalityI) simp_all
  qed
  have len: "\<And>(xs::tensor list) ys. map length xs = map length ys \<Longrightarrow> length xs = length ys"
    by (metis length_map)
  have sgld: "sampler_of (experiment_optimizer Ea) = SGLD oa \<longrightarrow>
          sampler_of (experiment_optimizer Eb) = SGLD ob \<longrightarrow>
          CustomSGLD_calls J cs_a oa = Inr oa' \<longrightarrow> CustomSGLD_calls J cs_b ob = Inr ob' \<longrightarrow>
          aligned g_a (train_vars oa') \<longrightarrow> aligned g_b (train_vars ob') \<longrightarrow>
            rng oa = random_key J 42 \<and> rng ob = random_key J 42
          \<and> CustomSGLD_call J s_a g_a oa' = Inr (sgld_result J (length cs_a) s_a g_a oa')
          \<and> CustomSGLD_call J s_b g_b ob' = Inr (sgld_result J (length cs_b) s_b g_b ob')
          \<and> (length cs_a = length cs_b \<longrightarrow>
              map length (train_vars oa') = map length (train_vars ob') \<longrightarrow>
                map (\<lambda>i. noise_of_draw J (length cs_a * length (train_vars oa') + i)
                            (length (train_vars oa' ! i))) [0..<length (train_vars oa')]
              = map (\<lambda>i. noise_of_draw J (length cs_b * length (train_vars ob') + i)
                            (length (train_vars ob' ! i))) [0..<length (train_vars ob')]
              \<and> rng (sgld_result J (length cs_a) s_a g_a oa')
                = rng (sgld_result J (length cs_b) s_b g_b ob'))"
  proof (intro impI conjI)
    assume a: "sampler_of (experiment_optimizer Ea) = SGLD oa"
      and b: "sampler_of (experiment_optimizer Eb) = SGLD ob"
      and ca: "CustomSGLD_calls J cs_a oa = Inr oa'" and cb: "CustomSGLD_calls J cs_b ob = Inr ob'"
      and ga: "aligned g_a (train_vars oa')" and gb: "aligned g_b (train_vars ob')"
    note ra = sgld_run [OF assms(1,2) a ca assms(4) ga]
    note rb = sgld_run [OF assms(1,3) b cb assms(5) gb]
    show "rng oa = random_key J 42" using ra(1) .
    show "rng ob = random_key J 42" using rb(1) .
    show "CustomSGLD_call J s_a g_a oa' = Inr (sgld_result J (length cs_a) s_a g_a oa')"
      using ra(2) .
    show "CustomSGLD_call J s_b g_b ob' = Inr (sgld_result J (length cs_b) s_b g_b ob')"
      using rb(2) .
    assume c: "length cs_a = length cs_b"
      and sh: "map length (train_vars oa') = map length (train_vars ob')"
    show "map (\<lambda>i. noise_of_draw J (length cs_a * length (train_vars oa') + i)
                            (length (train_vars oa' ! i))) [0..<length (train_vars oa')]
              = map (\<lambda>i. noise_of_draw J (length cs_b * length (train_vars ob') + i)
                            (length (train_vars ob' ! i))) [0..<length (train_vars ob')]"
      using same [OF c sh] .
    show "rng (sgld_result J (length cs_a) s_a g_a oa')
                = rng (sgld_result J (length cs_b) s_b g_b ob')"
      using c len [OF sh] by (simp add: sgld_result_def)
  qed
  have psgld: "sampler_of (experiment_optimizer Ea) = PSGLD qa \<longrightarrow>
          sampler_of (experiment_optimizer Eb) = PSGLD qb \<longrightarrow>
          CustomPreconditionedSGLD_calls J ds_a qa = Inr qa' \<longrightarrow>
          CustomPreconditionedSGLD_calls J ds_b qb = Inr qb' \<longrightarrow>
          aligned h_a (train_vars qa') \<longrightarrow> aligned h_b (train_vars qb') \<longrightarrow>
            rng qa = random_key J 42 \<and> rng qb = random_key J 42
          \<and> CustomPreconditionedSGLD_call J s_a h_a qa'
              = Inr (psgld_result J (length ds_a) s_a h_a qa')
          \<and> CustomPreconditionedSGLD_call J s_b h_b qb'
              = Inr (psgld_result J (length ds_b) s_b h_b qb')
          \<and> (length ds_a = length ds_b \<longrightarrow>
              map length (train_vars qa') = map length (train_vars qb') \<longrightarrow>
                map (\<lambda>i. noise_of_draw J (length ds_a * length (train_vars qa') + i)
                            (length (train_vars qa' ! i))) [0..<length (train_vars qa')]
              = map (\<lambda>i. noise_of_draw J (length ds_b * length (train_vars qb') + i)
                            (length (train_vars qb' ! i))) [0..<length (train_vars qb')]
              \<and> rng (psgld_result J (length ds_a) s_a h_a qa')
                = rng (psgld_result J (length ds_b) s_b h_b qb'))"
  proof (intro impI conjI)
    assume a: "sampler_of (experiment_optimizer Ea) = PSGLD qa"
      and b: "sampler_of (experiment_optimizer Eb) = PSGLD qb"
      and ca: "CustomPreconditionedSGLD_calls J ds_a qa = Inr qa'"
      and cb: "CustomPreconditionedSGLD_calls J ds_b qb = Inr qb'"
      and ga: "aligned h_a (train_vars qa')" and gb: "aligned h_b (train_vars qb')"
    note ra = psgld_run [OF assms(1,2) a ca assms(4) ga]
    note rb = psgld_run [OF assms(1,3) b cb assms(5) gb]
    show "rng qa = random_key J 42" using ra(1) .
    show "rng qb = random_key J 42" using rb(1) .
    show "CustomPreconditionedSGLD_call J s_a h_a qa'
              = Inr (psgld_result J (length ds_a) s_a h_a qa')"
      using ra(2) .
    show "CustomPreconditionedSGLD_call J s_b h_b qb'
              = Inr (psgld_result J (length ds_b) s_b h_b qb')"
      using rb(2) .
    assume c: "length ds_a = length ds_b"
      and sh: "map length (train_vars qa') = map length (train_vars qb')"
    show "map (\<lambda>i. noise_of_draw J (length ds_a * length (train_vars qa') + i)
                            (length (train_vars qa' ! i))) [0..<length (train_vars qa')]
              = map (\<lambda>i. noise_of_draw J (length ds_b * length (train_vars qb') + i)
                            (length (train_vars qb' ! i))) [0..<length (train_vars qb')]"
      using same [OF c sh] .
    show "rng (psgld_result J (length ds_a) s_a h_a qa')
                = rng (psgld_result J (length ds_b) s_b h_b qb')"
      using c len [OF sh] by (simp add: psgld_result_def)
  qed
  show ?thesis using sgld psgld by (rule conjI)
qed

theorem sampler_noise_independent_of_seed_witness:
  "main toy_env (default_flags\<lparr>FLAGS_optimizer := ''sgld'', FLAGS_rnd_seed := Some 1\<rparr>) 0
     = Inr (toy_experiment\<lparr>model_vars := [TrainVar [1, 1], StateVar [0], TrainVar [2]],
              trainable_vars := [TrainVar [1, 1], StateVar [0], TrainVar [2]],
              experiment_optimizer := Direct (SGLD \<lparr>train_vars = [[1, 1], [2]], rng = 42\<rparr>),
              generator_seed := 1\<rparr>)
   \<and> main toy_env (default_flags\<lparr>FLAGS_optimizer := ''sgld'', FLAGS_rnd_seed := None\<rparr>) 7
     = Inr (toy_experiment\<lparr>model_vars := [TrainVar [7, 1], StateVar [0], TrainVar [2]],
              trainable_vars := [TrainVar [7, 1], StateVar [0], TrainVar [2]],
              experiment_optimizer := Direct (SGLD \<lparr>train_vars = [[7, 1], [2]], rng = 42\<rparr>),
              generator_seed := 7\<rparr>)
   \<and> CustomSGLD_calls toy_env [(2, [[0, 0], [0]])] \<lparr>train_vars = [[1, 1], [2]], rng = 42\<rparr>
     = Inr \<lparr>train_vars = [[- 169, - 169], [- 336]], rng = 168\<rparr>
   \<and> CustomSGLD_calls toy_env [(2, [[1, 0], [0]])] \<lparr>train_vars = [[7, 1], [2]], rng = 42\<rparr>
     = Inr \<lparr>train_vars = [[- 2562497, - 169], [- 336]], rng = 168\<rparr>
   \<and> CustomSGLD_call toy_env 2 [[0, 0], [0]] \<lparr>train_vars = [[- 169, - 169], [- 336]], rng = 168\<rparr>
     = Inr (sgld_result toy_env 1 2 [[0, 0], [0]]
              \<lparr>train_vars = [[- 169, - 169], [- 336]], rng = 168\<rparr>)
   \<and> CustomSGLD_call toy_env 2 [[0, 3], [0]] \<lparr>train_vars = [[- 2562497, - 169], [- 336]], rng = 168\<rparr>
     = Inr (sgld_result toy_env 1 2 [[0, 3], [0]]
              \<lparr>train_vars = [[- 2562497, - 169], [- 336]], rng = 168\<rparr>)
   \<and> map (\<lambda>i. noise_of_draw toy_env (1 * 2 + i) ([2, 1] ! i)) [0..<2] = [[337, 337], [673]]
   \<and> CustomSGLD_call toy_env 2 [[0, 0], [0]] \<lparr>train_vars = [[- 169, - 169], [- 336]], rng = 168\<rparr>
     = Inr \<lparr>train_vars = [[- 843, - 843], [- 1682]], rng = 672\<rparr>
   \<and> main toy_env (default_flags\<lparr>FLAGS_optimizer := ''psgld'', FLAGS_rnd_seed := Some 1\<rparr>) 0
     = Inr (toy_experiment\<lparr>model_vars := [TrainVar [1, 1], StateVar [0], TrainVar [2]],
              trainable_vars := [TrainVar [1, 1], StateVar [0], TrainVar [2]],
              experiment_optimizer := Direct (PSGLD \<lparr>train_vars = [[1, 1], [2]], rng = 42,
                 alpha = 95 / 100, lambda_small = 1 / 10 ^ 8, momentum_vars = [[0, 0], [0]]\<rparr>),
              generator_seed := 1\<rparr>)
   \<and> main toy_env (default_flags\<lparr>FLAGS_optimizer := ''psgld'', FLAGS_rnd_seed := None\<rparr>) 7
     = Inr (toy_experiment\<lparr>model_vars := [TrainVar [7, 1], StateVar [0], TrainVar [2]],
              trainable_vars := [TrainVar [7, 1], StateVar [0], TrainVar [2]],
              experiment_optimizer := Direct (PSGLD \<lparr>train_vars = [[7, 1], [2]], rng = 42,
                 alpha = 95 / 100, lambda_small = 1 / 10 ^ 8, momentum_vars = [[0, 0], [0]]\<rparr>),
              generator_seed := 7\<rparr>)
   \<and> CustomPreconditionedSGLD_call toy_env (1 / 2) [[1, 2], [3]]
        \<lparr>train_vars = [[1, 1], [2]], rng = 42,
          alpha = 95 / 100, lambda_small = 1 / 10 ^ 8, momentum_vars = [[0, 0], [0]]\<rparr>
     = Inr (psgld_result toy_env 0 (1 / 2) [[1, 2], [3]]
        \<lparr>train_vars = [[1, 1], [2]], rng = 42,
          alpha = 95 / 100, lambda_small = 1 / 10 ^ 8, momentum_vars = [[0, 0], [0]]\<rparr>)
   \<and> CustomPreconditionedSGLD_call toy_env (1 / 2) [[4, 5], [6]]
        \<lparr>train_vars = [[7, 1], [2]], rng = 42,
          alpha = 95 / 100, lambda_small = 1 / 10 ^ 8, momentum_vars = [[0, 0], [0]]\<rparr>
     = Inr (psgld_result toy_env 0 (1 / 2) [[4, 5], [6]]
        \<lparr>train_vars = [[7, 1], [2]], rng = 42,
          alpha = 95 / 100, lambda_small = 1 / 10 ^ 8, momentum_vars = [[0, 0], [0]]\<rparr>)"
proof -
  let ?F = "default_flags\<lparr>FLAGS_optimizer := ''sgld''\<rparr>"
  let ?oa = "\<lparr>train_vars = [[1, 1], [2]], rng = 42::nat\<rparr>"
  let ?ob = "\<lparr>train_vars = [[7, 1], [2]], rng = 42::nat\<rparr>"
  let ?oa' = "\<lparr>train_vars = [[- 169, - 169], [- 336]], rng = 168::nat\<rparr>"
  let ?ob' = "\<lparr>train_vars = [[- 2562497, - 169], [- 336]], rng = 168::nat\<rparr>"
  let ?Ea = "toy_experiment\<lparr>model_vars := [TrainVar [1, 1], StateVar [0], TrainVar [2]],
              trainable_vars := [TrainVar [1, 1], StateVar [0], TrainVar [2]],
              experiment_optimizer := Direct (SGLD ?oa), generator_seed := 1\<rparr>"
  let ?Eb = "toy_experiment\<lparr>model_vars := [TrainVar [7, 1], StateVar [0], TrainVar [2]],
              trainable_vars := [TrainVar [7, 1], StateVar [0], TrainVar [2]],
              experiment_optimizer := Direct (SGLD ?ob), generator_seed := 7\<rparr>"
  have normal: "\<forall>k n. length (random_normal toy_env k n) = n"
    by (simp add: toy_env_def)
  have m1: "main toy_env (?F\<lparr>FLAGS_rnd_seed := Some 1\<rparr>) 0 = Inr ?Ea"
    by (simp add: main_def Experiment_init_def default_flags_def toy_env_def toy_experiment_def
      construct_logit_clip_fn_def make_model_resnet18 make_optimizer_def wrap_optimizer_def
      train_var_values_def CustomSGLD_init_def Let_def)
  have m2: "main toy_env (?F\<lparr>FLAGS_rnd_seed := None\<rparr>) 7 = Inr ?Eb"
    by (simp add: main_def Experiment_init_def default_flags_def toy_env_def toy_experiment_def
      construct_logit_clip_fn_def make_model_resnet18 make_optimizer_def wrap_optimizer_def
      train_var_values_def CustomSGLD_init_def Let_def)
  have s4: "sqrt 4 = 2" by simp
  have ca: "CustomSGLD_calls toy_env [(2, [[0, 0], [0]])] ?oa = Inr ?oa'"
    by (simp add: CustomSGLD_call_def jn_sqrt_scalar_def elementwise_def scalar_times_def
        times_scalar_def toy_env_def s4)
  have cb: "CustomSGLD_calls toy_env [(2, [[1, 0], [0]])] ?ob = Inr ?ob'"
    by (simp add: CustomSGLD_call_def jn_sqrt_scalar_def elementwise_def scalar_times_def
        times_scalar_def toy_env_def s4)
  have sa: "sampler_of (experiment_optimizer ?Ea) = SGLD ?oa" by simp
  have sb: "sampler_of (experiment_optimizer ?Eb) = SGLD ?ob" by simp
  have ga: "aligned [[0, 0], [0]] (train_vars ?oa')" by (simp add: aligned_def)
  have gb: "aligned [[0, 3], [0]] (train_vars ?ob')" by (simp add: aligned_def)
  have noise: "map (\<lambda>i. noise_of_draw toy_env (1 * 2 + i) ([2, 1] ! i)) [0..<2] = [[337, 337], [673]]"
    by (simp add: noise_of_draw_def subkey_at_def key_after_def toy_env_def upt_rec
        eval_nat_numeral)
  have second: "CustomSGLD_call toy_env 2 [[0, 0], [0]] ?oa'
     = Inr \<lparr>train_vars = [[- 843, - 843], [- 1682]], rng = 672\<rparr>"
    by (simp add: CustomSGLD_call_def jn_sqrt_scalar_def elementwise_def scalar_times_def
        times_scalar_def toy_env_def s4)
  have two: "(0::real) \<le> 2" by simp
  let ?G = "default_flags\<lparr>FLAGS_optimizer := ''psgld''\<rparr>"
  let ?qa = "\<lparr>train_vars = [[1, 1], [2]], rng = 42::nat,
          alpha = 95 / 100, lambda_small = 1 / 10 ^ 8, momentum_vars = [[0, 0], [0]]\<rparr>"
  let ?qb = "\<lparr>train_vars = [[7, 1], [2]], rng = 42::nat,
          alpha = 95 / 100, lambda_small = 1 / 10 ^ 8, momentum_vars = [[0, 0], [0]]\<rparr>"
  let ?Pa = "toy_experiment\<lparr>model_vars := [TrainVar [1, 1], StateVar [0], TrainVar [2]],
              trainable_vars := [TrainVar [1, 1], StateVar [0], TrainVar [2]],
              experiment_optimizer := Direct (PSGLD ?qa), generator_seed := 1\<rparr>"
  let ?Pb = "toy_experiment\<lparr>model_vars := [TrainVar [7, 1], StateVar [0], TrainVar [2]],
              trainable_vars := [TrainVar [7, 1], StateVar [0], TrainVar [2]],
              experiment_optimizer := Direct (PSGLD ?qb), generator_seed := 7\<rparr>"
  have p1: "main toy_env (?G\<lparr>FLAGS_rnd_seed := Some 1\<rparr>) 0 = Inr ?Pa"
    by (simp add: main_def Experiment_init_def default_flags_def toy_env_def toy_experiment_def
      construct_logit_clip_fn_def make_model_resnet18 make_optimizer_def wrap_optimizer_def
      train_var_values_def CustomPreconditionedSGLD_init_def zeros_like_def Let_def)
  have p2: "main toy_env (?G\<lparr>FLAGS_rnd_seed := None\<rparr>) 7 = Inr ?Pb"
    by (simp add: main_def Experiment_init_def default_flags_def toy_env_def toy_experiment_def
      construct_logit_clip_fn_def make_model_resnet18 make_optimizer_def wrap_optimizer_def
      train_var_values_def CustomPreconditionedSGLD_init_def zeros_like_def Let_def)
  have half: "(0::real) \<le> 1 / 2" by simp
  have qa: "sampler_of (experiment_optimizer ?Pa) = PSGLD ?qa" by simp
  have qb: "sampler_of (experiment_optimizer ?Pb) = PSGLD ?qb" by simp
  have da: "CustomPreconditionedSGLD_calls toy_env [] ?qa = Inr ?qa" by simp
  have db: "CustomPreconditionedSGLD_calls toy_env [] ?qb = Inr ?qb" by simp
  have ha: "aligned [[1, 2], [3]] (train_vars ?qa)" by (simp add: aligned_def)
  have hb: "aligned [[4, 5], [6]] (train_vars ?qb)" by (simp add: aligned_def)
  have psgld: "CustomPreconditionedSGLD_call toy_env (1 / 2) [[1, 2], [3]] ?qa
                 = Inr (psgld_result toy_env 0 (1 / 2) [[1, 2], [3]] ?qa)
             \<and> CustomPreconditionedSGLD_call toy_env (1 / 2) [[4, 5], [6]] ?qb
                 = Inr (psgld_result toy_env 0 (1 / 2) [[4, 5], [6]] ?qb)"
    using sampler_noise_independent_of_seed [where J = toy_env and F = ?G
        and seed_a = "Some 1" and urandom_a = 0 and Ea = ?Pa
        and seed_b = None and urandom_b = 7 and Eb = ?Pb
        and s_a = "1 / 2" and s_b = "1 / 2" and qa = ?qa and qb = ?qb
        and ds_a = "[]" and ds_b = "[]"
        and qa' = ?qa and qb' = ?qb and h_a = "[[1, 2], [3]]" and h_b = "[[4, 5], [6]]",
        OF normal p1 p2 half half]
      qa qb da db ha hb
    by simp
  show ?thesis
    using sampler_noise_independent_of_seed [where J = toy_env and F = ?F
        and seed_a = "Some 1" and urandom_a = 0 and Ea = ?Ea
        and seed_b = None and urandom_b = 7 and Eb = ?Eb
        and s_a = 2 and s_b = 2 and oa = ?oa and ob = ?ob
        and cs_a = "[(2, [[0, 0], [0]])]" and cs_b = "[(2, [[1, 0], [0]])]"
        and oa' = ?oa' and ob' = ?ob' and g_a = "[[0, 0], [0]]" and g_b = "[[0, 3], [0]]",
        OF normal m1 m2 two two]
      m1 m2 ca cb sa sb ga gb noise second p1 p2 psgld
    by simp
qed
section \<open>C9: the state collection of the checkpoint\<close>

text \<open>
  Claim C9 fails on the code. With the SGLD optimizer and every other flag at its default,
  the collection \<open>all_vars\<close> holds the variables of the model, the references of the
  optimizer to the trainable ones and the key of the default generator, and nothing for
  \<open>self.rng\<close>: the key of the optimizer is not in it, and the collection is the same
  after the key has advanced.
\<close>

theorem checkpoint_omits_sampler_key:
  "main toy_env (default_flags\<lparr>FLAGS_optimizer := ''sgld''\<rparr>) 0
     = Inr (toy_experiment\<lparr>experiment_optimizer :=
              Direct (SGLD \<lparr>train_vars = [[0, 1], [2]], rng = 42\<rparr>)\<rparr>)
   \<and> all_vars toy_env (toy_experiment\<lparr>experiment_optimizer :=
              Direct (SGLD \<lparr>train_vars = [[0, 1], [2]], rng = 42\<rparr>)\<rparr>)
     = [TrainVar [0, 1], StateVar [0], TrainVar [2], TrainRef [0, 1], TrainRef [2], RandomState 0]
   \<and> RandomState 42 \<notin> set (all_vars toy_env (toy_experiment\<lparr>experiment_optimizer :=
              Direct (SGLD \<lparr>train_vars = [[0, 1], [2]], rng = 42\<rparr>)\<rparr>))
   \<and> all_vars toy_env (toy_experiment\<lparr>experiment_optimizer :=
              Direct (SGLD \<lparr>train_vars = [[0, 1], [2]], rng = 84\<rparr>)\<rparr>)
     = all_vars toy_env (toy_experiment\<lparr>experiment_optimizer :=
              Direct (SGLD \<lparr>train_vars = [[0, 1], [2]], rng = 42\<rparr>)\<rparr>)"
proof -
  have m: "main toy_env (default_flags\<lparr>FLAGS_optimizer := ''sgld''\<rparr>) 0
     = Inr (toy_experiment\<lparr>experiment_optimizer :=
              Direct (SGLD \<lparr>train_vars = [[0, 1], [2]], rng = 42\<rparr>)\<rparr>)"
    by (simp add: main_def Experiment_init_def default_flags_def toy_env_def toy_experiment_def
      construct_logit_clip_fn_def make_model_resnet18 make_optimizer_def wrap_optimizer_def
      train_var_values_def CustomSGLD_init_def Let_def)
  show ?thesis
    unfolding m by (simp add: all_vars_def toy_experiment_def toy_env_def)
qed

section \<open>C5: the flag of a virtual step\<close>

lemma next_update_step_dvd: "k dvd next_update_step s k"
  by (simp add: next_update_step_def)

lemma next_update_step_bounds:
  assumes "1 \<le> k"
  shows "s \<le> next_update_step s k" "next_update_step s k < s + k"
proof -
  have k: "0 < k" using assms by simp
  have e: "next_update_step s k = (s + k - 1) - (s + k - 1) mod k"
    unfolding next_update_step_def by (simp add: minus_mod_eq_div_mult)
  have "0 \<le> (s + k - 1) mod k" "(s + k - 1) mod k < k"
    using k by simp_all
  then show "s \<le> next_update_step s k" "next_update_step s k < s + k"
    unfolding e by linarith+
qed

lemma next_update_step_group:
  assumes "1 \<le> k" and "(j - 1) * k < s" and "s \<le> j * k"
  shows "next_update_step s k = j * k"
proof -
  have k: "0 < k" using assms by simp
  have "(s + k - 1) div k = j"
  proof (rule int_div_pos_eq [where r = "s + k - 1 - k * j"])
    show "s + k - 1 = k * j + (s + k - 1 - k * j)" by simp
    show "0 \<le> s + k - 1 - k * j" using assms(2) by (simp add: algebra_simps)
    show "s + k - 1 - k * j < k" using assms(3) by (simp add: algebra_simps)
  qed
  then show ?thesis by (simp add: next_update_step_def)
qed

lemma next_update_step_mono:
  assumes "1 \<le> k" and "s \<le> s'"
  shows "next_update_step s k \<le> next_update_step s' k"
proof -
  have "(s + k - 1) div k \<le> (s' + k - 1) div k"
    using assms by (intro zdiv_mono1) simp_all
  then show ?thesis
    using assms(1) by (simp add: next_update_step_def mult_right_mono)
qed

lemma step_arguments_Inr:
  assumes "step_arguments F spe s = Inr (e, a)"
  shows "spe \<noteq> 0" "e = real_of_int (next_update_step s (FLAGS_grad_acc_steps F)) / spe"
    "a \<longleftrightarrow> s mod FLAGS_grad_acc_steps F = 0"
  using assms by (auto simp: step_arguments_def Let_def split: if_splits)

lemma inner_steps_entry:
  "inner_steps F spe steps = Inr xs \<Longrightarrow> (s, e, a) \<in> set xs \<Longrightarrow>
   s \<in> set steps \<and> step_arguments F spe s = Inr (e, a)"
proof (induction steps arbitrary: xs)
  case Nil
  then show ?case by simp
next
  case (Cons c steps)
  from Cons.prems(1) obtain ce au ys where
    c: "step_arguments F spe c = Inr (ce, au)"
    and ys: "inner_steps F spe steps = Inr ys"
    and xs: "xs = (c, ce, au) # ys"
    by (auto dest!: and_then_Inr)
  show ?case
  proof (cases "(s, e, a) = (c, ce, au)")
    case True
    then show ?thesis using c by simp
  next
    case False
    then have "(s, e, a) \<in> set ys" using Cons.prems(2) xs by auto
    then show ?thesis using Cons.IH [OF ys] by simp
  qed
qed

lemma outer_steps_entry:
  "outer_steps F spe bigs = Inr xs \<Longrightarrow> (s, e, a) \<in> set xs \<Longrightarrow>
   (\<exists>b\<in>set bigs. b + 1 \<le> s \<and> s \<le> b + FLAGS_eval_every_n_steps F)
   \<and> step_arguments F spe s = Inr (e, a)"
proof (induction bigs arbitrary: xs)
  case Nil
  then show ?case by simp
next
  case (Cons b bigs)
  from Cons.prems(1) obtain ys zs where
    ys: "inner_steps F spe [b + 1 .. b + FLAGS_eval_every_n_steps F] = Inr ys"
    and zs: "outer_steps F spe bigs = Inr zs"
    and xs: "xs = ys @ zs"
    by (auto dest!: and_then_Inr)
  show ?case
  proof (cases "(s, e, a) \<in> set ys")
    case True
    then show ?thesis using inner_steps_entry [OF ys] by auto
  next
    case False
    then have "(s, e, a) \<in> set zs" using Cons.prems(2) xs by simp
    then show ?thesis using Cons.IH [OF zs] by auto
  qed
qed

lemma py_range3_lower:
  "py_range3 start stop step = Inr bs \<Longrightarrow> b \<in> set bs \<Longrightarrow> 0 < step \<Longrightarrow> start \<le> b"
  by (auto simp: py_range3_def split: if_splits)

lemma train_and_eval_steps_entry:
  assumes "train_and_eval_steps F self start_step = Inr xs" and "(s, e, a) \<in> set xs"
  shows "start_step + 1 \<le> s"
    and "step_arguments F (real (num_examples (train_split self)) / real_of_int (total_batch_size self)) s
           = Inr (e, a)"
proof -
  let ?spe = "real (num_examples (train_split self)) / real_of_int (total_batch_size self)"
  from assms(1) obtain bigs where
    r: "py_range3 start_step (py_int (?spe * FLAGS_num_train_epochs F)) (FLAGS_eval_every_n_steps F) = Inr bigs"
    and o: "outer_steps F ?spe bigs = Inr xs"
    by (auto simp: train_and_eval_steps_def Let_def split: if_splits dest!: and_then_Inr)
  from outer_steps_entry [OF o assms(2)] obtain b where
    b: "b \<in> set bigs" "b + 1 \<le> s" "s \<le> b + FLAGS_eval_every_n_steps F"
    and st: "step_arguments F ?spe s = Inr (e, a)"
    by auto
  have "0 < FLAGS_eval_every_n_steps F" using b by linarith
  then have "start_step \<le> b" using py_range3_lower [OF r b(1)] by simp
  then show "start_step + 1 \<le> s" using b by simp
  show "step_arguments F ?spe s = Inr (e, a)" using st .
qed

lemma toy_schedule:
  "train_and_eval_steps
     (default_flags\<lparr>FLAGS_grad_acc_steps := 2, FLAGS_eval_every_n_steps := 2, FLAGS_num_train_epochs := 1\<rparr>)
     (toy_experiment\<lparr>train_split := \<lparr>num_classes = 1000, num_examples = 512\<rparr>\<rparr>) 0
   = Inr [(1, 1 / 2, False), (2, 1 / 2, True), (3, 1, False), (4, 1, True)]"
  by (simp add: train_and_eval_steps_def toy_experiment_def default_flags_def py_range3_def
      py_int_def step_arguments_def next_update_step_def upt_rec upto_rec1 Let_def)

text \<open>
  Claim C5. In a run of the training loop that starts from a step \<open>start_step \<ge> 0\<close>
  with \<open>grad_acc_steps = k \<ge> 1\<close>, every virtual step \<open>s\<close> that is run has \<open>s \<ge> 1\<close>, and
  the flag \<open>apply_updates\<close> handed to the training operation for it is true exactly when
  \<open>s mod k = 0\<close>. The loop body computes that flag for any step \<open>t\<close> whatever, as long
  as the number of steps per epoch is not zero.
\<close>

theorem apply_updates_flag:
  assumes "train_and_eval_steps F self start_step = Inr xs"
    and "(s, e, a) \<in> set xs"
    and "1 \<le> FLAGS_grad_acc_steps F"
    and "0 \<le> start_step"
  shows "1 \<le> s \<and> (a \<longleftrightarrow> s mod FLAGS_grad_acc_steps F = 0)
       \<and> (steps_per_epoch \<noteq> 0 \<longrightarrow>
            step_arguments F steps_per_epoch t =
              Inr (real_of_int (next_update_step t (FLAGS_grad_acc_steps F)) / steps_per_epoch,
                   t mod FLAGS_grad_acc_steps F = 0))"
proof -
  have "start_step + 1 \<le> s"
    using train_and_eval_steps_entry(1) [OF assms(1,2)] .
  moreover have "a \<longleftrightarrow> s mod FLAGS_grad_acc_steps F = 0"
    using step_arguments_Inr(3) [OF train_and_eval_steps_entry(2) [OF assms(1,2)]] .
  ultimately show ?thesis
    using assms(3,4) by (simp add: step_arguments_def Let_def)
qed

theorem apply_updates_flag_witness:
  "train_and_eval_steps
     (default_flags\<lparr>FLAGS_grad_acc_steps := 2, FLAGS_eval_every_n_steps := 2, FLAGS_num_train_epochs := 1\<rparr>)
     (toy_experiment\<lparr>train_split := \<lparr>num_classes = 1000, num_examples = 512\<rparr>\<rparr>) 0
   = Inr [(1, 1 / 2, False), (2, 1 / 2, True), (3, 1, False), (4, 1, True)]
   \<and> (1::int) \<le> 2 \<and> (True \<longleftrightarrow> (2::int) mod 2 = 0)
   \<and> step_arguments
       (default_flags\<lparr>FLAGS_grad_acc_steps := 2, FLAGS_eval_every_n_steps := 2, FLAGS_num_train_epochs := 1\<rparr>)
       4 3 = Inr (1, False)"
proof -
  let ?F = "default_flags\<lparr>FLAGS_grad_acc_steps := 2, FLAGS_eval_every_n_steps := 2, FLAGS_num_train_epochs := 1\<rparr>"
  have m: "(2, 1 / 2, True) \<in> set [(1::int, 1 / 2 :: real, False), (2, 1 / 2, True), (3, 1, False), (4, 1, True)]"
    by simp
  have k: "1 \<le> FLAGS_grad_acc_steps ?F" by simp
  show ?thesis
    using apply_updates_flag [OF toy_schedule m k, of 4 3] toy_schedule
    by (simp add: next_update_step_def)
qed

section \<open>C6: the fractional epoch of a virtual step\<close>

text \<open>
  Claim C6. In a run of the training loop with \<open>grad_acc_steps = k \<ge> 1\<close> and a positive
  total batch size, the fractional epoch handed to the training operation for the
  virtual step \<open>s\<close> is \<open>n / steps_per_epoch\<close>, where \<open>n = (s + k - 1) // k * k\<close> is the
  least multiple of \<open>k\<close> that is at least \<open>s\<close> (it is a multiple of \<open>k\<close> and
  \<open>s \<le> n < s + k\<close>). Hence every step \<open>s\<close> of the microbatches \<open>(j - 1) * k < s \<le> j * k\<close>
  of one update gets the epoch \<open>j * k / steps_per_epoch\<close>, two steps rounded to the same
  multiple get the same epoch, and the epoch does not decrease with \<open>s\<close>. The learning
  rate function clamps this epoch to \<open>num_train_epochs\<close> afterwards.
\<close>

theorem fractional_epoch_of_step:
  assumes "train_and_eval_steps F self start_step = Inr xs"
    and "(s, e, a) \<in> set xs"
    and "(s', e', a') \<in> set xs"
    and "1 \<le> FLAGS_grad_acc_steps F"
    and "0 < total_batch_size self"
  shows "e = real_of_int (next_update_step s (FLAGS_grad_acc_steps F))
               / (real (num_examples (train_split self)) / real_of_int (total_batch_size self))
       \<and> FLAGS_grad_acc_steps F dvd next_update_step s (FLAGS_grad_acc_steps F)
       \<and> s \<le> next_update_step s (FLAGS_grad_acc_steps F)
       \<and> next_update_step s (FLAGS_grad_acc_steps F) < s + FLAGS_grad_acc_steps F
       \<and> (\<forall>j. (j - 1) * FLAGS_grad_acc_steps F < s \<and> s \<le> j * FLAGS_grad_acc_steps F \<longrightarrow>
              e = real_of_int (j * FLAGS_grad_acc_steps F)
                    / (real (num_examples (train_split self)) / real_of_int (total_batch_size self)))
       \<and> (next_update_step s (FLAGS_grad_acc_steps F) = next_update_step s' (FLAGS_grad_acc_steps F)
            \<longrightarrow> e = e')
       \<and> (s \<le> s' \<longrightarrow> e \<le> e')"
proof -
  let ?k = "FLAGS_grad_acc_steps F"
  let ?spe = "real (num_examples (train_split self)) / real_of_int (total_batch_size self)"
  note st = train_and_eval_steps_entry(2) [OF assms(1,2)]
  note st' = train_and_eval_steps_entry(2) [OF assms(1,3)]
  have e: "e = real_of_int (next_update_step s ?k) / ?spe"
    using step_arguments_Inr(2) [OF st] .
  have e': "e' = real_of_int (next_update_step s' ?k) / ?spe"
    using step_arguments_Inr(2) [OF st'] .
  have "0 \<le> ?spe" using assms(5) by simp
  moreover have "?spe \<noteq> 0" using step_arguments_Inr(1) [OF st] .
  ultimately have pos: "0 < ?spe" by linarith
  have grp: "\<forall>j. (j - 1) * ?k < s \<and> s \<le> j * ?k \<longrightarrow> e = real_of_int (j * ?k) / ?spe"
    using next_update_step_group [OF assms(4)] e by metis
  have mono: "s \<le> s' \<longrightarrow> e \<le> e'"
  proof
    assume "s \<le> s'"
    then have "next_update_step s ?k \<le> next_update_step s' ?k"
      using next_update_step_mono [OF assms(4)] by simp
    then have "real_of_int (next_update_step s ?k) \<le> real_of_int (next_update_step s' ?k)"
      by simp
    then show "e \<le> e'"
      unfolding e e' using pos by (rule divide_right_mono [OF _ less_imp_le])
  qed
  show ?thesis
    using e e' grp mono next_update_step_dvd [of ?k s] next_update_step_bounds [OF assms(4), of s]
    by simp
qed

theorem fractional_epoch_of_step_witness:
  "train_and_eval_steps
     (default_flags\<lparr>FLAGS_grad_acc_steps := 2, FLAGS_eval_every_n_steps := 2, FLAGS_num_train_epochs := 1\<rparr>)
     (toy_experiment\<lparr>train_split := \<lparr>num_classes = 1000, num_examples = 512\<rparr>\<rparr>) 0
   = Inr [(1, 1 / 2, False), (2, 1 / 2, True), (3, 1, False), (4, 1, True)]
   \<and> next_update_step 1 2 = 2 \<and> next_update_step 3 2 = 4
   \<and> (1 / 2 :: real) = real_of_int (next_update_step 1 2) / (real 512 / real_of_int 128)
   \<and> (1 / 2 :: real) \<le> 1"
proof -
  let ?F = "default_flags\<lparr>FLAGS_grad_acc_steps := 2, FLAGS_eval_every_n_steps := 2, FLAGS_num_train_epochs := 1\<rparr>"
  let ?E = "toy_experiment\<lparr>train_split := \<lparr>num_classes = 1000, num_examples = 512\<rparr>\<rparr>"
  have m: "(1, 1 / 2, False) \<in> set [(1::int, 1 / 2 :: real, False), (2, 1 / 2, True), (3, 1, False), (4, 1, True)]"
    "(3, 1, False) \<in> set [(1::int, 1 / 2 :: real, False), (2, 1 / 2, True), (3, 1, False), (4, 1, True)]"
    by simp_all
  have k: "1 \<le> FLAGS_grad_acc_steps ?F" by simp
  have b: "0 < total_batch_size ?E" by (simp add: toy_experiment_def)
  show ?thesis
    using fractional_epoch_of_step [OF toy_schedule m(1) m(2) k b] toy_schedule
    by (simp add: next_update_step_def)
qed

end
